theory Spec2Isabelle
  imports Complex_Main "HOL-Library.Sublist"
begin

section \<open>Python strings\<close>

text \<open>
  A Python \<open>str\<close> is a sequence of Unicode code points. It is modelled as a list of
  natural numbers, one per code point, so that the emoji of the script's messages and
  the Unicode white space removed by \<open>str.strip\<close> are what they are in the interpreter.
  \<open>py\<close> turns an ASCII literal into such a string.
\<close>

type_synonym pystr = "nat list"

definition py :: "string \<Rightarrow> pystr" where
  "py s = map of_char s"

definition nl :: pystr where
  "nl = [10]"

text \<open>
  \<open>str.isspace\<close> on one code point: the white-space table of the interpreter
  (bidirectional types WS, B, S and category Zs).
\<close>

definition isspace :: "nat \<Rightarrow> bool" where
  "isspace c = (c \<in> set ([9, 10, 11, 12, 13, 28, 29, 30, 31, 32, 133, 160, 5760]
                 @ [8192 ..< 8203] @ [8232, 8233, 8239, 8287, 12288]))"

text \<open>\<open>s.strip()\<close>: leading and trailing white space removed.\<close>

definition strip :: "pystr \<Rightarrow> pystr" where
  "strip s = rev (dropWhile isspace (rev (dropWhile isspace s)))"

text \<open>
  \<open>s.lower()\<close>. On a string of ASCII code points only, the letters A to Z are moved to
  a to z and nothing else changes. On any other string the result is read from the
  Unicode character database of the interpreter, which is not part of the repository:
  it is the parameter \<open>unicode_lower\<close>.
\<close>

definition ascii_lower :: "nat \<Rightarrow> nat" where
  "ascii_lower c = (if 65 \<le> c \<and> c \<le> 90 then c + 32 else c)"

definition isascii :: "pystr \<Rightarrow> bool" where
  "isascii s = list_all (\<lambda>c. c < 128) s"

definition lower :: "(pystr \<Rightarrow> pystr) \<Rightarrow> pystr \<Rightarrow> pystr" where
  "lower unicode_lower s = (if isascii s then map ascii_lower s else unicode_lower s)"

text \<open>\<open>sep.join(xs)\<close> on a list of strings.\<close>

fun join :: "pystr \<Rightarrow> pystr list \<Rightarrow> pystr" where
  "join sep [] = []"
| "join sep [x] = x"
| "join sep (x # y # ys) = x @ sep @ join sep (y # ys)"

text \<open>\<open>str(v)\<close> of a value that is a string or \<open>None\<close>, as an f-string renders it.\<close>

definition str_opt :: "pystr option \<Rightarrow> pystr" where
  "str_opt v = (case v of None \<Rightarrow> py ''None'' | Some s \<Rightarrow> s)"

text \<open>
  The number of positions of \<open>s\<close> at which \<open>p\<close> occurs (\<open>p in s\<close> is
  \<^term>\<open>sublist p s\<close>).
\<close>

fun occurrences :: "'a list \<Rightarrow> 'a list \<Rightarrow> nat" where
  "occurrences p [] = (if p = [] then 1 else 0)"
| "occurrences p (y # ys) = (if prefix p (y # ys) then 1 else 0) + occurrences p ys"

section \<open>Configuration from the environment\<close>

text \<open>
  The module reads nine environment variables when it is loaded. \<open>os.environ.get(k)\<close>
  gives \<open>None\<close> for an unset variable, \<open>os.environ.get(k, d)\<close> gives \<open>d\<close>.
\<close>

type_synonym environ = "pystr \<rightharpoonup> pystr"

definition environ_get :: "environ \<Rightarrow> pystr \<Rightarrow> pystr \<Rightarrow> pystr" where
  "environ_get env k d = (case env k of None \<Rightarrow> d | Some v \<Rightarrow> v)"

record config =
  GITHUB_TOKEN :: "pystr option"
  TARGET_REPO_OWNER :: pystr
  TARGET_REPO_NAME :: pystr
  JIRA_ISSUE_KEY :: "pystr option"
  JIRA_SUMMARY :: pystr
  JIRA_DESCRIPTION :: pystr
  JIRA_ISSUE_URL :: pystr
  JIRA_PRIORITY :: pystr
  JIRA_ISSUE_TYPE :: pystr

definition load_config :: "environ \<Rightarrow> config" where
  "load_config env =
     \<lparr> GITHUB_TOKEN = env (py ''GITHUB_TOKEN''),
       TARGET_REPO_OWNER = environ_get env (py ''TARGET_REPO_OWNER'') (py ''Karthi-Knackforge''),
       TARGET_REPO_NAME = environ_get env (py ''TARGET_REPO_NAME'') (py ''cms-project''),
       JIRA_ISSUE_KEY = env (py ''JIRA_ISSUE_KEY''),
       JIRA_SUMMARY = environ_get env (py ''JIRA_SUMMARY'') [],
       JIRA_DESCRIPTION = environ_get env (py ''JIRA_DESCRIPTION'') [],
       JIRA_ISSUE_URL = environ_get env (py ''JIRA_ISSUE_URL'') [],
       JIRA_PRIORITY = environ_get env (py ''JIRA_PRIORITY'') (py ''Medium''),
       JIRA_ISSUE_TYPE = environ_get env (py ''JIRA_ISSUE_TYPE'') (py ''Task'') \<rparr>"

definition GITHUB_API_BASE :: pystr where
  "GITHUB_API_BASE = py ''https://api.github.com''"

definition GITHUB_COPILOT_USERNAME :: pystr where
  "GITHUB_COPILOT_USERNAME = py ''github''"

section \<open>Decoded JSON, responses and exceptions\<close>

text \<open>
  What \<open>response.json()\<close> can return. A float is kept as far as the script looks at
  it: its value when finite, or which of the three special values it is. A decoded
  object is an association list in the order of its keys.
\<close>

datatype pyfloat = Fin rat | PosInf | NegInf | NaN

datatype json =
    JNull
  | JBool bool
  | JInt int
  | JFloat pyfloat
  | JStr pystr
  | JList "json list"
  | JDict "(pystr \<times> json) list"

text \<open>
  A response of the \<open>requests\<close> library: its status code, \<open>response.text\<close>, and
  the value of \<open>response.json()\<close> (\<open>None\<close> when the body does not decode).
\<close>

record response =
  status_code :: nat
  resp_text :: pystr
  resp_json :: "json option"

text \<open>
  The exceptions the script can meet. \<open>RequestException m r\<close> is a failure raised by
  \<open>requests.get\<close> or \<open>requests.post\<close> itself (connection, time-out, redirects), with
  its message and its \<open>response\<close> attribute; \<open>HTTPError\<close> is raised by
  \<open>raise_for_status\<close> and carries the response; \<open>JSONDecodeError\<close> is raised by
  \<open>response.json()\<close>.
\<close>

datatype py_exn =
    RequestException pystr "response option"
  | HTTPError response
  | JSONDecodeError
  | AttributeError
  | TypeError
  | KeyError
  | IndexError

datatype 'a outcome = Return 'a | Raise py_exn | SysExit nat

fun obind :: "'a outcome \<Rightarrow> ('a \<Rightarrow> 'b outcome) \<Rightarrow> 'b outcome" where
  "obind (Return x) f = f x"
| "obind (Raise e) f = Raise e"
| "obind (SysExit n) f = SysExit n"

text \<open>\<open>bool(v)\<close>: the test of \<open>if v:\<close>.\<close>

fun truthy :: "json \<Rightarrow> bool" where
  "truthy JNull = False"
| "truthy (JBool b) = b"
| "truthy (JInt n) = (n \<noteq> 0)"
| "truthy (JFloat f) = (f \<noteq> Fin 0)"
| "truthy (JStr s) = (s \<noteq> [])"
| "truthy (JList xs) = (xs \<noteq> [])"
| "truthy (JDict kvs) = (kvs \<noteq> [])"

text \<open>\<open>v.get(k, d)\<close>: only a dict has the method.\<close>

fun dict_get :: "json \<Rightarrow> pystr \<Rightarrow> json \<Rightarrow> json outcome" where
  "dict_get (JDict kvs) k d = Return (case map_of kvs k of None \<Rightarrow> d | Some x \<Rightarrow> x)"
| "dict_get _ k d = Raise AttributeError"

text \<open>\<open>v > 0\<close>: defined on numbers (a bool is an int), a type error elsewhere.\<close>

fun gt_zero :: "json \<Rightarrow> bool outcome" where
  "gt_zero (JInt n) = Return (0 < n)"
| "gt_zero (JBool b) = Return b"
| "gt_zero (JFloat (Fin r)) = Return (0 < r)"
| "gt_zero (JFloat PosInf) = Return True"
| "gt_zero (JFloat NegInf) = Return False"
| "gt_zero (JFloat NaN) = Return False"
| "gt_zero _ = Raise TypeError"

text \<open>\<open>v[k]\<close> with a string key.\<close>

fun getitem :: "json \<Rightarrow> pystr \<Rightarrow> json outcome" where
  "getitem (JDict kvs) k = (case map_of kvs k of None \<Rightarrow> Raise KeyError | Some x \<Rightarrow> Return x)"
| "getitem _ k = Raise TypeError"

text \<open>\<open>v[0]\<close>. The keys of a decoded object are strings, so \<open>0\<close> is never one.\<close>

fun getitem_0 :: "json \<Rightarrow> json outcome" where
  "getitem_0 (JList []) = Raise IndexError"
| "getitem_0 (JList (x # xs)) = Return x"
| "getitem_0 (JStr []) = Raise IndexError"
| "getitem_0 (JStr (c # cs)) = Return (JStr [c])"
| "getitem_0 (JDict kvs) = Raise KeyError"
| "getitem_0 _ = Raise TypeError"

text \<open>
  \<open>sep.join(v)\<close>: \<open>v\<close> is iterated (a list by its elements, a string by its
  characters, a dict by its keys) and every element must be a string.
\<close>

fun is_JStr :: "json \<Rightarrow> bool" where
  "is_JStr (JStr s) = True"
| "is_JStr _ = False"

fun the_JStr :: "json \<Rightarrow> pystr" where
  "the_JStr (JStr s) = s"
| "the_JStr _ = []"

fun join_json :: "pystr \<Rightarrow> json \<Rightarrow> pystr outcome" where
  "join_json sep (JList xs) =
     (if list_all is_JStr xs then Return (join sep (map the_JStr xs)) else Raise TypeError)"
| "join_json sep (JStr s) = Return (join sep (map (\<lambda>c. [c]) s))"
| "join_json sep (JDict kvs) = Return (join sep (map fst kvs))"
| "join_json sep _ = Raise TypeError"

text \<open>\<open>response.raise_for_status()\<close> raises for a 4xx or 5xx status and for no other.\<close>

definition raises_for_status :: "response \<Rightarrow> bool" where
  "raises_for_status r = (400 \<le> status_code r \<and> status_code r < 600)"

section \<open>The world outside the script\<close>

record issue_data =
  title :: pystr
  body :: pystr
  labels :: "pystr list"
  assignees :: "pystr list"

record search_params =
  param_q :: pystr
  param_per_page :: nat

type_synonym headers = "(pystr \<times> pystr) list"

datatype http_result = Fails pystr "response option" | Responds response

text \<open>
  Every call of \<open>requests.get\<close> and \<open>requests.post\<close> is recorded, in order, with its
  arguments.
\<close>

datatype http_call = GET pystr headers search_params | POST pystr headers issue_data

fun is_POST :: "http_call \<Rightarrow> bool" where
  "is_POST (POST u h d) = True"
| "is_POST (GET u h p) = False"

text \<open>
  The world answers the two calls, and holds the two facts about the installed libraries
  that the source does not fix: the lower-casing of strings outside ASCII, and whether
  the decoding error of \<open>response.json()\<close> is a \<open>RequestException\<close> (it is
  from version 2.27 of \<open>requests\<close> on, and a plain \<open>ValueError\<close> before).
\<close>

record world =
  requests_get :: "pystr \<Rightarrow> headers \<Rightarrow> search_params \<Rightarrow> http_result"
  requests_post :: "pystr \<Rightarrow> headers \<Rightarrow> issue_data \<Rightarrow> http_result"
  unicode_lower :: "pystr \<Rightarrow> pystr"
  json_error_is_request_exception :: bool

fun is_request_exception :: "world \<Rightarrow> py_exn \<Rightarrow> bool" where
  "is_request_exception w (RequestException m r) = True"
| "is_request_exception w (HTTPError r) = True"
| "is_request_exception w JSONDecodeError = json_error_is_request_exception w"
| "is_request_exception w _ = False"

text \<open>\<open>e.response\<close> of a request exception.\<close>

fun exn_response :: "py_exn \<Rightarrow> response option" where
  "exn_response (RequestException m r) = r"
| "exn_response (HTTPError r) = Some r"
| "exn_response _ = None"

text \<open>
  A printed line is a sequence of literal text, of \<open>str(v)\<close> for a decoded value \<open>v\<close>
  and of \<open>str(e)\<close> for an exception \<open>e\<close>; the last two are kept symbolic.
\<close>

datatype piece = Lit pystr | Str json | Exc py_exn

datatype out = Print "piece list"

text \<open>
  The state of a run: the lines printed on standard output, the tracebacks that
  \<open>traceback.print_exc()\<close> has written on standard error (one entry per call, the
  exception it reports), and the calls made.
\<close>

record state =
  stdout :: "out list"
  stderr :: "py_exn list"
  calls :: "http_call list"

definition init_state :: state where
  "init_state = \<lparr> stdout = [], stderr = [], calls = [] \<rparr>"

definition print :: "piece list \<Rightarrow> state \<Rightarrow> state" where
  "print l s = s\<lparr> stdout := stdout s @ [Print l] \<rparr>"

definition record_call :: "http_call \<Rightarrow> state \<Rightarrow> state" where
  "record_call c s = s\<lparr> calls := calls s @ [c] \<rparr>"

section \<open>The script\<close>

subsection \<open>\<open>check_required_env_vars\<close>\<close>

text \<open>The dict \<open>required_vars\<close>, in the order of its keys.\<close>

definition required_vars :: "config \<Rightarrow> (pystr \<times> pystr option) list" where
  "required_vars c =
     [(py ''GITHUB_TOKEN'', GITHUB_TOKEN c),
      (py ''TARGET_REPO_OWNER'', Some (TARGET_REPO_OWNER c)),
      (py ''TARGET_REPO_NAME'', Some (TARGET_REPO_NAME c)),
      (py ''JIRA_ISSUE_KEY'', JIRA_ISSUE_KEY c)]"

text \<open>\<open>not value\<close> for a value that is \<open>None\<close> or a string.\<close>

definition not_value :: "pystr option \<Rightarrow> bool" where
  "not_value v = (case v of None \<Rightarrow> True | Some s \<Rightarrow> s = [])"

definition missing :: "config \<Rightarrow> pystr list" where
  "missing c = map fst (filter (\<lambda>(var, value). not_value value) (required_vars c))"

definition missing_message :: "pystr list \<Rightarrow> pystr" where
  "missing_message ms =
     [10060] @ py '' Error: Missing required environment variables: '' @ join (py '', '') ms"

definition check_required_env_vars :: "config \<Rightarrow> state \<Rightarrow> unit outcome \<times> state" where
  "check_required_env_vars c s =
     (if missing c \<noteq> [] then (SysExit 1, print [Lit (missing_message (missing c))] s)
      else (Return (), s))"

subsection \<open>\<open>get_github_headers\<close>\<close>

definition get_github_headers :: "config \<Rightarrow> headers" where
  "get_github_headers c =
     [(py ''Authorization'', py ''Bearer '' @ str_opt (GITHUB_TOKEN c)),
      (py ''Accept'', py ''application/vnd.github+json''),
      (py ''X-GitHub-Api-Version'', py ''2022-11-28'')]"

subsection \<open>\<open>create_copilot_optimized_issue_body\<close>\<close>

definition description_of :: "config \<Rightarrow> pystr" where
  "description_of c =
     (if JIRA_DESCRIPTION c \<noteq> [] then strip (JIRA_DESCRIPTION c)
      else py ''No description provided.'')"

definition create_copilot_optimized_issue_body :: "config \<Rightarrow> pystr" where
  "create_copilot_optimized_issue_body c =
     py ''## '' @ [128203] @ py '' Requirements'' @ nl
     @ nl
     @ description_of c @ nl
     @ nl
     @ py ''## '' @ [9989] @ py '' Acceptance Criteria'' @ nl
     @ nl
     @ py ''- [ ] Implementation matches the requirements described above'' @ nl
     @ py ''- [ ] Code follows project conventions and best practices'' @ nl
     @ py ''- [ ] Tests are added/updated to cover changes'' @ nl
     @ py ''- [ ] Documentation is updated if needed'' @ nl
     @ nl
     @ py ''## '' @ [128279] @ py '' Jira Reference'' @ nl
     @ nl
     @ py ''**Jira Issue:** ['' @ str_opt (JIRA_ISSUE_KEY c) @ py '']('' @ JIRA_ISSUE_URL c @ py '')'' @ nl
     @ py ''**Priority:** '' @ JIRA_PRIORITY c @ nl
     @ py ''**Type:** '' @ JIRA_ISSUE_TYPE c @ nl
     @ nl
     @ py ''---'' @ nl
     @ nl
     @ py ''*This issue was automatically created from Jira and assigned to GitHub Copilot coding agent for implementation.*'' @ nl"

subsection \<open>\<open>search_existing_issue\<close>\<close>

text \<open>
  The body of the \<open>try\<close>, from the result of \<open>requests.get\<close> on: \<open>raise_for_status\<close>,
  \<open>json()\<close>, the test of \<open>total_count\<close> and the first item.
\<close>

definition search_try :: "http_result \<Rightarrow> json outcome" where
  "search_try res =
     (case res of
        Fails m r \<Rightarrow> Raise (RequestException m r)
      | Responds r \<Rightarrow>
          if raises_for_status r then Raise (HTTPError r)
          else (case resp_json r of
                  None \<Rightarrow> Raise JSONDecodeError
                | Some data \<Rightarrow>
                    obind (dict_get data (py ''total_count'') (JInt 0)) (\<lambda>n.
                    obind (gt_zero n) (\<lambda>positive.
                      if positive
                      then obind (getitem data (py ''items'')) getitem_0
                      else Return JNull))))"

definition search_url :: pystr where
  "search_url = GITHUB_API_BASE @ py ''/search/issues''"

definition search_query :: "config \<Rightarrow> pystr option \<Rightarrow> pystr" where
  "search_query c jira_key =
     py ''repo:'' @ TARGET_REPO_OWNER c @ py ''/'' @ TARGET_REPO_NAME c @ py '' ''
     @ str_opt jira_key @ py '' in:title,body type:issue''"

definition search_call :: "config \<Rightarrow> pystr option \<Rightarrow> http_call" where
  "search_call c jira_key =
     GET search_url (get_github_headers c) \<lparr> param_q = search_query c jira_key, param_per_page = 1 \<rparr>"

definition search_existing_issue ::
  "world \<Rightarrow> config \<Rightarrow> pystr option \<Rightarrow> state \<Rightarrow> json outcome \<times> state" where
  "search_existing_issue w c jira_key s =
     (let s1 = print [Lit ([128269] @ py '' Searching for existing issues with key: ''
                           @ str_opt jira_key @ py '' in '' @ TARGET_REPO_OWNER c @ py ''/''
                           @ TARGET_REPO_NAME c)] s;
          params = \<lparr> param_q = search_query c jira_key, param_per_page = 1 \<rparr>;
          s2 = record_call (GET search_url (get_github_headers c) params) s1
      in case search_try (requests_get w search_url (get_github_headers c) params) of
           Raise e \<Rightarrow>
             if is_request_exception w e
             then (Return JNull,
                   print [Lit ([9888, 65039] @ py ''  Warning: Failed to search for existing issues: ''),
                          Exc e] s2)
             else (Raise e, s2)
         | r \<Rightarrow> (r, s2))"

subsection \<open>\<open>create_github_issue\<close>\<close>

definition create_url :: "config \<Rightarrow> pystr" where
  "create_url c =
     GITHUB_API_BASE @ py ''/repos/'' @ TARGET_REPO_OWNER c @ py ''/'' @ TARGET_REPO_NAME c
     @ py ''/issues''"

definition issue_title :: "config \<Rightarrow> pystr" where
  "issue_title c = py ''['' @ str_opt (JIRA_ISSUE_KEY c) @ py ''] '' @ JIRA_SUMMARY c"

definition issue_labels :: "world \<Rightarrow> config \<Rightarrow> pystr list" where
  "issue_labels w c =
     [py ''jira-sync'', py ''copilot-agent'',
      py ''priority-'' @ lower (unicode_lower w) (JIRA_PRIORITY c)]"

definition issue_payload :: "world \<Rightarrow> config \<Rightarrow> issue_data" where
  "issue_payload w c =
     \<lparr> title = issue_title c,
       body = create_copilot_optimized_issue_body c,
       labels = issue_labels w c,
       assignees = [GITHUB_COPILOT_USERNAME] \<rparr>"

definition create_call :: "world \<Rightarrow> config \<Rightarrow> http_call" where
  "create_call w c = POST (create_url c) (get_github_headers c) (issue_payload w c)"

text \<open>The body of the \<open>try\<close>, from the result of \<open>requests.post\<close> on.\<close>

definition create_try :: "http_result \<Rightarrow> json outcome" where
  "create_try res =
     (case res of
        Fails m r \<Rightarrow> Raise (RequestException m r)
      | Responds r \<Rightarrow>
          if raises_for_status r then Raise (HTTPError r)
          else (case resp_json r of
                  None \<Rightarrow> Raise JSONDecodeError
                | Some issue \<Rightarrow> Return issue))"

definition create_error_lines :: "py_exn \<Rightarrow> piece list list" where
  "create_error_lines e =
     [Lit ([10060] @ py '' Error creating GitHub issue: ''), Exc e]
     # (case exn_response e of
          None \<Rightarrow> []
        | Some r \<Rightarrow> [[Lit (py ''Response: '' @ resp_text r)]])"

definition create_github_issue :: "world \<Rightarrow> config \<Rightarrow> state \<Rightarrow> json outcome \<times> state" where
  "create_github_issue w c s =
     (let s1 = print [Lit ([128221] @ py '' Creating issue in '' @ TARGET_REPO_OWNER c
                           @ py ''/'' @ TARGET_REPO_NAME c)] s;
          s2 = print [Lit (py ''   Title: '' @ issue_title c)] s1;
          s3 = record_call (POST (create_url c) (get_github_headers c) (issue_payload w c)) s2
      in case create_try
                (requests_post w (create_url c) (get_github_headers c) (issue_payload w c)) of
           Raise e \<Rightarrow>
             if is_request_exception w e
             then (SysExit 1, fold print (create_error_lines e) s3)
             else (Raise e, s3)
         | r \<Rightarrow> (r, s3))"

subsection \<open>\<open>main\<close>\<close>

text \<open>
  Statements in sequence: the next one runs on the value and the state of the one before,
  and an exception or \<open>sys.exit\<close> ends the sequence.
\<close>

fun sbind ::
  "'a outcome \<times> state \<Rightarrow> ('a \<Rightarrow> state \<Rightarrow> 'b outcome \<times> state) \<Rightarrow> 'b outcome \<times> state" where
  "sbind (Return x, s) f = f x s"
| "sbind (Raise e, s) f = (Raise e, s)"
| "sbind (SysExit n, s) f = (SysExit n, s)"

text \<open>The branch \<open>if existing_issue:\<close>.\<close>

definition report_existing :: "json \<Rightarrow> state \<Rightarrow> unit outcome \<times> state" where
  "report_existing existing_issue s =
     sbind (dict_get existing_issue (py ''number'') JNull, s) (\<lambda>issue_number s.
     sbind (dict_get existing_issue (py ''html_url'') JNull, s) (\<lambda>issue_url s.
       (Return (),
        print [Lit ([9989] @ py '' Skipping creation - no duplicate will be created'')]
          (print [Lit ([128279] @ py '' URL: ''), Str issue_url]
             (print [Lit ([8505, 65039] @ py ''  Issue already exists: #''), Str issue_number] s)))))"

text \<open>The statements after \<open>issue = create_github_issue()\<close>.\<close>

definition report_created :: "config \<Rightarrow> json \<Rightarrow> state \<Rightarrow> unit outcome \<times> state" where
  "report_created c issue s =
     sbind (dict_get issue (py ''number'') JNull, s) (\<lambda>issue_number s.
     sbind (dict_get issue (py ''html_url'') JNull, s) (\<lambda>issue_url s.
       let s1 = print [Lit ([9989] @ py '' Successfully created issue #''), Str issue_number] s;
           s2 = print [Lit ([128279] @ py '' URL: ''), Str issue_url] s1;
           s3 = print [Lit ([129302] @ py '' Assigned to: @'' @ GITHUB_COPILOT_USERNAME
                            @ py '' (GitHub Copilot coding agent)'')] s2
       in sbind (obind (dict_get issue (py ''labels'') (JList [])) (join_json (py '', '')), s3)
            (\<lambda>joined s.
               (Return (),
                print [Lit (nl @ py ''::notice title=Issue Created::Created issue #''),
                       Str issue_number,
                       Lit (py '' in '' @ TARGET_REPO_OWNER c @ py ''/'' @ TARGET_REPO_NAME c)]
                  (print [Lit ([127991, 65039] @ py ''  Labels: '' @ joined)] s)))))"

definition main :: "world \<Rightarrow> config \<Rightarrow> state \<Rightarrow> unit outcome \<times> state" where
  "main w c s =
     (let s1 = print [Lit ([128640] @ py '' Starting Jira to GitHub Issue workflow...'')] s;
          s2 = print [Lit ([128205] @ py '' Target Repository: '' @ TARGET_REPO_OWNER c
                           @ py ''/'' @ TARGET_REPO_NAME c)] s1;
          s3 = print [Lit ([128221] @ py '' Jira Issue: '' @ str_opt (JIRA_ISSUE_KEY c))] s2
      in sbind (check_required_env_vars c s3) (\<lambda>_ s.
         sbind (search_existing_issue w c (JIRA_ISSUE_KEY c) s) (\<lambda>existing_issue s.
           if truthy existing_issue then report_existing existing_issue s
           else sbind (create_github_issue w c
                         (print [Lit ([10024] @ py '' No existing issue found, creating new issue...'')] s))
                  (report_created c))))"

subsection \<open>The \<open>__main__\<close> block\<close>

text \<open>
  The exit status of the process and the final state. \<open>SystemExit\<close> is not an
  \<open>Exception\<close>, so \<open>sys.exit(1)\<close> inside \<open>main\<close> passes the handler. The handler
  prints the fatal error on standard output and the traceback on standard error.
\<close>

definition script :: "world \<Rightarrow> config \<Rightarrow> state \<Rightarrow> nat \<times> state" where
  "script w c s =
     (case main w c s of
        (Return u, s') \<Rightarrow> (0, s')
      | (SysExit n, s') \<Rightarrow> (n, s')
      | (Raise e, s') \<Rightarrow>
          (1, s'\<lparr> stdout := stdout s' @ [Print [Lit ([10060] @ py '' Fatal error: ''), Exc e]],
                 stderr := stderr s' @ [e] \<rparr>))"

text \<open>One invocation: the module is loaded in an environment and run in a world.\<close>

definition run :: "environ \<Rightarrow> world \<Rightarrow> nat \<times> state" where
  "run env w = script w (load_config env) init_state"

definition exit_status :: "nat \<times> state \<Rightarrow> nat" where
  "exit_status r = fst r"

definition creation_requests :: "nat \<times> state \<Rightarrow> http_call list" where
  "creation_requests r = filter is_POST (calls (snd r))"

section \<open>Concrete inputs\<close>

text \<open>
  Configurations, responses and worlds at which the theorems below are evaluated. In a
  world made by \<open>world_of\<close> the two calls are answered by fixed results.
\<close>

definition config_all_missing :: config where
  "config_all_missing =
     \<lparr> GITHUB_TOKEN = None, TARGET_REPO_OWNER = [], TARGET_REPO_NAME = [],
       JIRA_ISSUE_KEY = Some [], JIRA_SUMMARY = [], JIRA_DESCRIPTION = [],
       JIRA_ISSUE_URL = [], JIRA_PRIORITY = py ''Medium'', JIRA_ISSUE_TYPE = py ''Task'' \<rparr>"

text \<open>Only the credential and the ticket key are set; the owner and the name are absent.\<close>

definition environ_token_key :: environ where
  "environ_token_key =
     map_of [(py ''GITHUB_TOKEN'', py ''token''), (py ''JIRA_ISSUE_KEY'', py ''PROJ-42'')]"

text \<open>The credential is absent; the owner, the name and the ticket key are set and empty.\<close>

definition environ_all_missing :: environ where
  "environ_all_missing =
     map_of [(py ''TARGET_REPO_OWNER'', []), (py ''TARGET_REPO_NAME'', []),
             (py ''JIRA_ISSUE_KEY'', [])]"

definition config_ok :: config where
  "config_ok =
     \<lparr> GITHUB_TOKEN = Some (py ''token''),
       TARGET_REPO_OWNER = py ''Karthi-Knackforge'',
       TARGET_REPO_NAME = py ''cms-project'',
       JIRA_ISSUE_KEY = Some (py ''PROJ-42''),
       JIRA_SUMMARY = py ''Fix login bug'',
       JIRA_DESCRIPTION = py ''Users cannot log in with SSO'',
       JIRA_ISSUE_URL = py ''https://jira.example.com/browse/PROJ-42'',
       JIRA_PRIORITY = py ''High'',
       JIRA_ISSUE_TYPE = py ''Bug'' \<rparr>"

definition world_of :: "http_result \<Rightarrow> http_result \<Rightarrow> world" where
  "world_of g p =
     \<lparr> requests_get = (\<lambda>u h q. g), requests_post = (\<lambda>u h d. p),
       unicode_lower = (\<lambda>s. s), json_error_is_request_exception = True \<rparr>"

definition responds :: "nat \<Rightarrow> json \<Rightarrow> http_result" where
  "responds code j = Responds \<lparr> status_code = code, resp_text = [], resp_json = Some j \<rparr>"

definition search_nothing :: json where
  "search_nothing = JDict [(py ''total_count'', JInt 0), (py ''items'', JList [])]"

definition search_found :: json where
  "search_found =
     JDict [(py ''total_count'', JInt 1),
            (py ''items'', JList [JDict [(py ''number'', JInt 17),
                                         (py ''html_url'', JStr (py ''https://github.com/Karthi-Knackforge/cms-project/issues/17''))]])]"

definition search_empty_item :: json where
  "search_empty_item = JDict [(py ''total_count'', JInt 1), (py ''items'', JList [JDict []])]"

definition search_no_items :: json where
  "search_no_items = JDict [(py ''total_count'', JInt 1), (py ''items'', JList [])]"

text \<open>The hosting platform answers a creation with the labels as objects.\<close>

definition created_issue :: json where
  "created_issue =
     JDict [(py ''number'', JInt 18),
            (py ''html_url'', JStr (py ''https://github.com/Karthi-Knackforge/cms-project/issues/18'')),
            (py ''labels'', JList [JDict [(py ''name'', JStr (py ''jira-sync''))],
                                   JDict [(py ''name'', JStr (py ''copilot-agent''))],
                                   JDict [(py ''name'', JStr (py ''priority-high''))]])]"

section \<open>The answers of the world to one invocation\<close>

text \<open>
  The result of the search request and of the creation request that an invocation with
  configuration \<open>c\<close> makes in the world \<open>w\<close>.
\<close>

definition search_response :: "world \<Rightarrow> config \<Rightarrow> http_result" where
  "search_response w c =
     requests_get w search_url (get_github_headers c)
       \<lparr> param_q = search_query c (JIRA_ISSUE_KEY c), param_per_page = 1 \<rparr>"

definition create_response :: "world \<Rightarrow> config \<Rightarrow> http_result" where
  "create_response w c =
     requests_post w (create_url c) (get_github_headers c) (issue_payload w c)"

text \<open>
  The search reports a positive total count: the request is answered, the status is no
  error, the body decodes and \<open>data.get("total_count", 0) > 0\<close> is true.
\<close>

definition positive_count :: "http_result \<Rightarrow> bool" where
  "positive_count res =
     (case res of
        Fails m r \<Rightarrow> False
      | Responds r \<Rightarrow>
          \<not> raises_for_status r
          \<and> (case resp_json r of
                None \<Rightarrow> False
              | Some data \<Rightarrow>
                  obind (dict_get data (py ''total_count'') (JInt 0)) gt_zero = Return True))"

text \<open>The request fails as the library reports it: no answer, or a 4xx or 5xx status.\<close>

definition request_failure :: "http_result \<Rightarrow> py_exn option" where
  "request_failure res =
     (case res of
        Fails m r \<Rightarrow> Some (RequestException m r)
      | Responds r \<Rightarrow> if raises_for_status r then Some (HTTPError r) else None)"

text \<open>
  The outcome of each step, which does not depend on what was printed before: the
  functions below are the first components of the functions of the script (lemmas
  \<open>search_existing_issue_fst\<close> to \<open>main_fst\<close>).
\<close>

definition search_result :: "world \<Rightarrow> config \<Rightarrow> json outcome" where
  "search_result w c =
     (case search_try (search_response w c) of
        Raise e \<Rightarrow> if is_request_exception w e then Return JNull else Raise e
      | r \<Rightarrow> r)"

definition create_result :: "world \<Rightarrow> config \<Rightarrow> json outcome" where
  "create_result w c =
     (case create_try (create_response w c) of
        Raise e \<Rightarrow> if is_request_exception w e then SysExit 1 else Raise e
      | r \<Rightarrow> r)"

definition existing_result :: "json \<Rightarrow> unit outcome" where
  "existing_result v =
     obind (dict_get v (py ''number'') JNull) (\<lambda>issue_number.
     obind (dict_get v (py ''html_url'') JNull) (\<lambda>issue_url. Return ()))"

definition created_result :: "json \<Rightarrow> unit outcome" where
  "created_result v =
     obind (dict_get v (py ''number'') JNull) (\<lambda>issue_number.
     obind (dict_get v (py ''html_url'') JNull) (\<lambda>issue_url.
     obind (obind (dict_get v (py ''labels'') (JList [])) (join_json (py '', '')))
       (\<lambda>joined. Return ())))"

definition main_result :: "world \<Rightarrow> config \<Rightarrow> unit outcome" where
  "main_result w c =
     (if missing c \<noteq> [] then SysExit 1
      else obind (search_result w c) (\<lambda>existing_issue.
             if truthy existing_issue then existing_result existing_issue
             else obind (create_result w c) created_result))"

definition world_falsy_item :: world where
  "world_falsy_item = world_of (responds 200 search_empty_item) (responds 201 created_issue)"

definition world_no_items :: world where
  "world_no_items = world_of (responds 200 search_no_items) (responds 201 created_issue)"

definition world_found :: world where
  "world_found = world_of (responds 200 search_found) (responds 201 created_issue)"

definition world_created :: world where
  "world_created = world_of (responds 200 search_nothing) (responds 201 created_issue)"

definition world_search_down :: world where
  "world_search_down =
     world_of (Fails (py ''Connection refused'') None) (responds 201 (JDict []))"

definition world_unprocessable :: world where
  "world_unprocessable =
     world_of (responds 200 search_nothing)
       (Responds \<lparr> status_code = 422, resp_text = py ''Validation Failed'', resp_json = None \<rparr>)"

definition world_multiple_choices :: world where
  "world_multiple_choices = world_of (responds 200 search_nothing) (responds 300 (JDict []))"

definition config_blank_description :: config where
  "config_blank_description = config_ok\<lparr> JIRA_DESCRIPTION := py ''   '' \<rparr>"

definition config_short_description :: config where
  "config_short_description = config_ok\<lparr> JIRA_DESCRIPTION := py ''Tests'' \<rparr>"

section \<open>Basic facts\<close>

lemma calls_print [simp]: "calls (print l s) = calls s"
  by (simp add: print_def)

lemma stdout_print [simp]: "stdout (print l s) = stdout s @ [Print l]"
  by (simp add: print_def)

lemma calls_record_call [simp]: "calls (record_call k s) = calls s @ [k]"
  by (simp add: record_call_def)

lemma stdout_record_call [simp]: "stdout (record_call k s) = stdout s"
  by (simp add: record_call_def)

lemma stderr_print [simp]: "stderr (print l s) = stderr s"
  by (simp add: print_def)

lemma stderr_record_call [simp]: "stderr (record_call k s) = stderr s"
  by (simp add: record_call_def)

lemma stderr_fold_print [simp]: "stderr (fold print ls s) = stderr s"
  by (induction ls arbitrary: s) simp_all

lemma calls_fold_print [simp]: "calls (fold print ls s) = calls s"
  by (induction ls arbitrary: s) simp_all

lemma stdout_fold_print [simp]: "stdout (fold print ls s) = stdout s @ map Print ls"
  by (induction ls arbitrary: s) simp_all

lemma occurrences_pos: "0 < occurrences p s \<longleftrightarrow> sublist p s"
  by (induction s) (auto simp: sublist_Cons_right)

lemma sublist_join: "x \<in> set xs \<Longrightarrow> sublist x (join sep xs)"
proof (induction sep xs rule: join.induct)
  case (1 sep)
  then show ?case by simp
next
  case (2 sep x')
  then show ?case by simp
next
  case (3 sep x' y ys)
  show ?case
  proof (cases "x = x'")
    case True
    then show ?thesis by simp
  next
    case False
    with 3 have "sublist x (join sep (y # ys))" by simp
    then have "sublist x ((x' @ sep) @ join sep (y # ys))"
      by (rule sublist_order.order_trans [OF _ sublist_append_leftI])
    then show ?thesis by simp
  qed
qed

lemma missing_message_names: "x \<in> set ms \<Longrightarrow> sublist x (missing_message ms)"
proof -
  assume "x \<in> set ms"
  then have "sublist x (join (py '', '') ms)" by (rule sublist_join)
  then have "sublist x (([10060] @ py '' Error: Missing required environment variables: '')
                          @ join (py '', '') ms)"
    by (rule sublist_order.order_trans [OF _ sublist_append_leftI])
  then show ?thesis by (simp add: missing_message_def)
qed

lemma missing_set:
  "set (missing c) =
     (if not_value (GITHUB_TOKEN c) then {py ''GITHUB_TOKEN''} else {})
     \<union> (if TARGET_REPO_OWNER c = [] then {py ''TARGET_REPO_OWNER''} else {})
     \<union> (if TARGET_REPO_NAME c = [] then {py ''TARGET_REPO_NAME''} else {})
     \<union> (if not_value (JIRA_ISSUE_KEY c) then {py ''JIRA_ISSUE_KEY''} else {})"
  by (auto simp: missing_def required_vars_def not_value_def)

lemma main_missing:
  "missing c \<noteq> [] \<Longrightarrow> fst (main w c s) = SysExit 1 \<and> calls (snd (main w c s)) = calls s"
  by (simp add: main_def check_required_env_vars_def Let_def)

lemma main_missing_stdout:
  "missing c \<noteq> [] \<Longrightarrow>
   stdout (snd (main w c s)) =
     stdout s @
     [Print [Lit ([128640] @ py '' Starting Jira to GitHub Issue workflow...'')],
      Print [Lit ([128205] @ py '' Target Repository: '' @ TARGET_REPO_OWNER c
                  @ py ''/'' @ TARGET_REPO_NAME c)],
      Print [Lit ([128221] @ py '' Jira Issue: '' @ str_opt (JIRA_ISSUE_KEY c))],
      Print [Lit (missing_message (missing c))]]"
  by (simp add: main_def check_required_env_vars_def Let_def)

lemma main_missing_stderr: "missing c \<noteq> [] \<Longrightarrow> stderr (snd (main w c s)) = stderr s"
  by (simp add: main_def check_required_env_vars_def Let_def)

lemma create_github_issue_calls:
  "calls (snd (create_github_issue w c s)) = calls s @ [create_call w c]"
proof (cases "create_try (requests_post w (create_url c) (get_github_headers c) (issue_payload w c))")
  case (Return x)
  then show ?thesis by (simp add: create_github_issue_def create_call_def Let_def)
next
  case (Raise e)
  then show ?thesis by (simp add: create_github_issue_def create_call_def Let_def)
next
  case (SysExit n)
  then show ?thesis by (simp add: create_github_issue_def create_call_def Let_def)
qed

lemma create_github_issue_stderr: "stderr (snd (create_github_issue w c s)) = stderr s"
proof (cases "create_try (requests_post w (create_url c) (get_github_headers c) (issue_payload w c))")
  case (Return x)
  then show ?thesis by (simp add: create_github_issue_def Let_def)
next
  case (Raise e)
  then show ?thesis by (simp add: create_github_issue_def Let_def)
next
  case (SysExit n)
  then show ?thesis by (simp add: create_github_issue_def Let_def)
qed

lemma search_existing_issue_stderr: "stderr (snd (search_existing_issue w c k s)) = stderr s"
proof (cases "search_try (requests_get w search_url (get_github_headers c)
                 \<lparr> param_q = search_query c k, param_per_page = 1 \<rparr>)")
  case (Return x)
  then show ?thesis by (simp add: search_existing_issue_def Let_def)
next
  case (Raise e)
  then show ?thesis by (simp add: search_existing_issue_def Let_def)
next
  case (SysExit n)
  then show ?thesis by (simp add: search_existing_issue_def Let_def)
qed

lemma search_existing_issue_calls:
  "calls (snd (search_existing_issue w c k s)) = calls s @ [search_call c k]"
proof (cases "search_try (requests_get w search_url (get_github_headers c)
                 \<lparr> param_q = search_query c k, param_per_page = 1 \<rparr>)")
  case (Return x)
  then show ?thesis by (simp add: search_existing_issue_def search_call_def Let_def)
next
  case (Raise e)
  then show ?thesis by (simp add: search_existing_issue_def search_call_def Let_def)
next
  case (SysExit n)
  then show ?thesis by (simp add: search_existing_issue_def search_call_def Let_def)
qed

lemma search_try_no_exit: "search_try res \<noteq> SysExit n"
proof (cases res)
  case (Fails m r)
  then show ?thesis by (simp add: search_try_def)
next
  case (Responds r)
  show ?thesis
  proof (cases "resp_json r")
    case None
    with Responds show ?thesis by (simp add: search_try_def)
  next
    case (Some data)
    have a: "obind (getitem data (py ''items'')) getitem_0 \<noteq> SysExit n"
    proof (cases "getitem data (py ''items'')")
      case (Return x)
      then show ?thesis by (cases x rule: getitem_0.cases) simp_all
    next
      case (Raise e)
      then show ?thesis by simp
    next
      case (SysExit k)
      then show ?thesis
        by (cases data) (simp_all split: option.splits)
    qed
    have b: "obind (gt_zero v) (\<lambda>positive. if positive
               then obind (getitem data (py ''items'')) getitem_0 else Return JNull) \<noteq> SysExit n" for v
      using a by (cases v rule: gt_zero.cases) simp_all
    have "obind (dict_get data (py ''total_count'') (JInt 0)) (\<lambda>v.
            obind (gt_zero v) (\<lambda>positive. if positive
               then obind (getitem data (py ''items'')) getitem_0 else Return JNull)) \<noteq> SysExit n"
      using b by (cases data) simp_all
    with Responds Some show ?thesis by (simp add: search_try_def)
  qed
qed

lemma search_existing_issue_fst:
  "fst (search_existing_issue w c (JIRA_ISSUE_KEY c) s) = search_result w c"
proof (cases "search_try (search_response w c)")
  case (Return v)
  then show ?thesis
    by (simp add: search_existing_issue_def search_result_def search_response_def Let_def)
next
  case (Raise e)
  then show ?thesis
    by (simp add: search_existing_issue_def search_result_def search_response_def Let_def)
next
  case (SysExit n)
  then show ?thesis
    by (simp add: search_existing_issue_def search_result_def search_response_def Let_def)
qed

lemma create_github_issue_fst: "fst (create_github_issue w c s) = create_result w c"
proof (cases "create_try (create_response w c)")
  case (Return v)
  then show ?thesis
    by (simp add: create_github_issue_def create_result_def create_response_def Let_def)
next
  case (Raise e)
  then show ?thesis
    by (simp add: create_github_issue_def create_result_def create_response_def Let_def)
next
  case (SysExit n)
  then show ?thesis
    by (simp add: create_github_issue_def create_result_def create_response_def Let_def)
qed

lemma report_existing_fst: "fst (report_existing v s) = existing_result v"
  by (cases v) (simp_all add: report_existing_def existing_result_def)

lemma report_created_fst: "fst (report_created c v s) = created_result v"
proof (cases v)
  case (JDict kvs)
  show ?thesis
  proof (cases "obind (dict_get v (py ''labels'') (JList [])) (join_json (py '', ''))")
    case (Return x)
    with JDict show ?thesis by (simp add: report_created_def created_result_def Let_def)
  next
    case (Raise e)
    with JDict show ?thesis by (simp add: report_created_def created_result_def Let_def)
  next
    case (SysExit n)
    with JDict show ?thesis by (simp add: report_created_def created_result_def Let_def)
  qed
qed (simp_all add: report_created_def created_result_def)

lemma fst_sbind:
  assumes "\<And>x s. fst (f x s) = g x"
  shows "fst (sbind (r, s) f) = obind r g"
  using assms by (cases r) simp_all

lemma report_existing_calls: "calls (snd (report_existing v s)) = calls s"
  by (cases v) (simp_all add: report_existing_def)

lemma report_created_calls: "calls (snd (report_created c v s)) = calls s"
proof (cases v)
  case (JDict kvs)
  show ?thesis
  proof (cases "obind (dict_get v (py ''labels'') (JList [])) (join_json (py '', ''))")
    case (Return x)
    with JDict show ?thesis by (simp add: report_created_def Let_def)
  next
    case (Raise e)
    with JDict show ?thesis by (simp add: report_created_def Let_def)
  next
    case (SysExit n)
    with JDict show ?thesis by (simp add: report_created_def Let_def)
  qed
qed (simp_all add: report_created_def)

lemma report_existing_stderr: "stderr (snd (report_existing v s)) = stderr s"
  by (cases v) (simp_all add: report_existing_def)

lemma report_created_stderr: "stderr (snd (report_created c v s)) = stderr s"
proof (cases v)
  case (JDict kvs)
  show ?thesis
  proof (cases "obind (dict_get v (py ''labels'') (JList [])) (join_json (py '', ''))")
    case (Return x)
    with JDict show ?thesis by (simp add: report_created_def Let_def)
  next
    case (Raise e)
    with JDict show ?thesis by (simp add: report_created_def Let_def)
  next
    case (SysExit n)
    with JDict show ?thesis by (simp add: report_created_def Let_def)
  qed
qed (simp_all add: report_created_def)

lemma script_calls: "calls (snd (script w c s)) = calls (snd (main w c s))"
proof (cases "main w c s")
  case (Pair r s')
  then show ?thesis by (cases r) (simp_all add: script_def)
qed

lemma script_exit_status:
  "exit_status (script w c s) = (case fst (main w c s) of Return u \<Rightarrow> 0 | Raise e \<Rightarrow> 1 | SysExit n \<Rightarrow> n)"
proof (cases "main w c s")
  case (Pair r s')
  then show ?thesis by (cases r) (simp_all add: script_def exit_status_def)
qed

text \<open>\<open>main\<close> once the check has passed.\<close>

lemma main_checked:
  assumes "missing c = []"
  shows "main w c s =
     sbind (search_existing_issue w c (JIRA_ISSUE_KEY c)
              (print [Lit ([128221] @ py '' Jira Issue: '' @ str_opt (JIRA_ISSUE_KEY c))]
                 (print [Lit ([128205] @ py '' Target Repository: '' @ TARGET_REPO_OWNER c
                              @ py ''/'' @ TARGET_REPO_NAME c)]
                    (print [Lit ([128640] @ py '' Starting Jira to GitHub Issue workflow...'')] s))))
       (\<lambda>existing_issue s.
           if truthy existing_issue then report_existing existing_issue s
           else sbind (create_github_issue w c
                         (print [Lit ([10024] @ py '' No existing issue found, creating new issue...'')] s))
                  (report_created c))"
  using assms by (simp add: main_def check_required_env_vars_def Let_def)

lemma main_fst: "fst (main w c s) = main_result w c"
proof (cases "missing c = []")
  case False
  then show ?thesis by (simp add: main_missing main_result_def)
next
  case True
  have inner: "fst (if truthy v then report_existing v s'
                    else sbind (create_github_issue w c
                           (print [Lit ([10024] @ py '' No existing issue found, creating new issue...'')] s'))
                         (report_created c))
               = (if truthy v then existing_result v
                  else obind (create_result w c) created_result)" for v s'
  proof (cases "truthy v")
    case True
    then show ?thesis by (simp add: report_existing_fst)
  next
    case False
    let ?s = "print [Lit ([10024] @ py '' No existing issue found, creating new issue...'')] s'"
    have "fst (sbind (create_github_issue w c ?s) (report_created c))
          = obind (fst (create_github_issue w c ?s)) created_result"
      using fst_sbind [of "report_created c" created_result
                          "fst (create_github_issue w c ?s)" "snd (create_github_issue w c ?s)"]
      by (simp add: report_created_fst)
    with False show ?thesis by (simp add: create_github_issue_fst)
  qed
  let ?s3 = "print [Lit ([128221] @ py '' Jira Issue: '' @ str_opt (JIRA_ISSUE_KEY c))]
                 (print [Lit ([128205] @ py '' Target Repository: '' @ TARGET_REPO_OWNER c
                              @ py ''/'' @ TARGET_REPO_NAME c)]
                    (print [Lit ([128640] @ py '' Starting Jira to GitHub Issue workflow...'')] s))"
  let ?f = "\<lambda>existing_issue s.
           if truthy existing_issue then report_existing existing_issue s
           else sbind (create_github_issue w c
                         (print [Lit ([10024] @ py '' No existing issue found, creating new issue...'')] s))
                  (report_created c)"
  have "fst (sbind (search_existing_issue w c (JIRA_ISSUE_KEY c) ?s3) ?f)
        = obind (fst (search_existing_issue w c (JIRA_ISSUE_KEY c) ?s3))
            (\<lambda>v. if truthy v then existing_result v else obind (create_result w c) created_result)"
    using fst_sbind [of ?f
        "\<lambda>v. if truthy v then existing_result v else obind (create_result w c) created_result"
        "fst (search_existing_issue w c (JIRA_ISSUE_KEY c) ?s3)"
        "snd (search_existing_issue w c (JIRA_ISSUE_KEY c) ?s3)"] inner
    by simp
  with True show ?thesis
    by (simp add: main_checked main_result_def search_existing_issue_fst)
qed

text \<open>The requests of one run of \<open>main\<close>, in all cases.\<close>

lemma main_calls:
  "calls (snd (main w c s)) =
     calls s @
     (if missing c \<noteq> [] then []
      else search_call c (JIRA_ISSUE_KEY c)
           # (case search_result w c of
                Return v \<Rightarrow> if truthy v then [] else [create_call w c]
              | Raise e \<Rightarrow> []
              | SysExit n \<Rightarrow> []))"
proof (cases "missing c = []")
  case False
  then show ?thesis by (simp add: main_missing)
next
  case True
  let ?s3 = "print [Lit ([128221] @ py '' Jira Issue: '' @ str_opt (JIRA_ISSUE_KEY c))]
                 (print [Lit ([128205] @ py '' Target Repository: '' @ TARGET_REPO_OWNER c
                              @ py ''/'' @ TARGET_REPO_NAME c)]
                    (print [Lit ([128640] @ py '' Starting Jira to GitHub Issue workflow...'')] s))"
  obtain r s4 where se: "search_existing_issue w c (JIRA_ISSUE_KEY c) ?s3 = (r, s4)"
    by (cases "search_existing_issue w c (JIRA_ISSUE_KEY c) ?s3")
  have c4: "calls s4 = calls s @ [search_call c (JIRA_ISSUE_KEY c)]"
    using search_existing_issue_calls [of w c "JIRA_ISSUE_KEY c" ?s3] se by simp
  have r: "search_result w c = r"
    using search_existing_issue_fst [of w c ?s3] se by simp
  show ?thesis
  proof (cases r)
    case (Return v)
    show ?thesis
    proof (cases "truthy v")
      case t: True
      with True Return se c4 r show ?thesis
        by (simp add: main_checked report_existing_calls)
    next
      case f: False
      let ?s5 = "print [Lit ([10024] @ py '' No existing issue found, creating new issue...'')] s4"
      obtain r' s6 where cr: "create_github_issue w c ?s5 = (r', s6)"
        by (cases "create_github_issue w c ?s5")
      have c6: "calls s6 = calls s4 @ [create_call w c]"
        using create_github_issue_calls [of w c ?s5] cr by simp
      have "calls (snd (sbind (r', s6) (report_created c))) = calls s6"
        by (cases r') (simp_all add: report_created_calls)
      with True Return se c4 c6 cr f r show ?thesis
        by (simp add: main_checked)
    qed
  next
    case (Raise e)
    with True se c4 r show ?thesis by (simp add: main_checked)
  next
    case (SysExit n)
    with True se c4 r show ?thesis by (simp add: main_checked)
  qed
qed

text \<open>\<open>main\<close> writes nothing on standard error.\<close>

lemma main_stderr: "stderr (snd (main w c s)) = stderr s"
proof (cases "missing c = []")
  case False
  then show ?thesis by (simp add: main_missing_stderr)
next
  case True
  let ?s3 = "print [Lit ([128221] @ py '' Jira Issue: '' @ str_opt (JIRA_ISSUE_KEY c))]
                 (print [Lit ([128205] @ py '' Target Repository: '' @ TARGET_REPO_OWNER c
                              @ py ''/'' @ TARGET_REPO_NAME c)]
                    (print [Lit ([128640] @ py '' Starting Jira to GitHub Issue workflow...'')] s))"
  obtain r s4 where se: "search_existing_issue w c (JIRA_ISSUE_KEY c) ?s3 = (r, s4)"
    by (cases "search_existing_issue w c (JIRA_ISSUE_KEY c) ?s3")
  have c4: "stderr s4 = stderr s"
    using search_existing_issue_stderr [of w c "JIRA_ISSUE_KEY c" ?s3] se by simp
  show ?thesis
  proof (cases r)
    case (Return v)
    show ?thesis
    proof (cases "truthy v")
      case t: True
      with True Return se c4 show ?thesis
        by (simp add: main_checked report_existing_stderr)
    next
      case f: False
      let ?s5 = "print [Lit ([10024] @ py '' No existing issue found, creating new issue...'')] s4"
      obtain r' s6 where cr: "create_github_issue w c ?s5 = (r', s6)"
        by (cases "create_github_issue w c ?s5")
      have c6: "stderr s6 = stderr s4"
        using create_github_issue_stderr [of w c ?s5] cr by simp
      have "stderr (snd (sbind (r', s6) (report_created c))) = stderr s6"
        by (cases r') (simp_all add: report_created_stderr)
      with True Return se c4 c6 cr f show ?thesis
        by (simp add: main_checked)
    qed
  next
    case (Raise e)
    with True se c4 show ?thesis by (simp add: main_checked)
  next
    case (SysExit n)
    with True se c4 show ?thesis by (simp add: main_checked)
  qed
qed

lemma script_exit_main_result:
  "exit_status (script w c s) = (case main_result w c of Return u \<Rightarrow> 0 | Raise e \<Rightarrow> 1 | SysExit n \<Rightarrow> n)"
  by (simp add: script_exit_status main_fst)

lemma creation_requests_script:
  "creation_requests (script w c init_state) =
     (if missing c \<noteq> [] then []
      else case search_result w c of
             Return v \<Rightarrow> if truthy v then [] else [create_call w c]
           | Raise e \<Rightarrow> []
           | SysExit n \<Rightarrow> [])"
  by (simp add: creation_requests_def script_calls main_calls init_state_def search_call_def
      create_call_def split: outcome.splits)

lemma request_failure_search_try:
  assumes "request_failure res = Some e"
  shows "search_try res = Raise e" and "create_try res = Raise e"
    and "is_request_exception w e"
  using assms
  by (cases res; simp add: request_failure_def search_try_def create_try_def
        split: if_splits; fastforce)+

lemma search_existing_issue_stdout_caught:
  assumes "search_try (search_response w c) = Raise e" and "is_request_exception w e"
  shows "stdout (snd (search_existing_issue w c (JIRA_ISSUE_KEY c) s)) =
           stdout s @
           [Print [Lit ([128269] @ py '' Searching for existing issues with key: ''
                        @ str_opt (JIRA_ISSUE_KEY c) @ py '' in '' @ TARGET_REPO_OWNER c
                        @ py ''/'' @ TARGET_REPO_NAME c)],
            Print [Lit ([9888, 65039] @ py ''  Warning: Failed to search for existing issues: ''),
                   Exc e]]"
  using assms by (simp add: search_existing_issue_def search_response_def Let_def)

lemma create_github_issue_stdout_caught:
  assumes "create_try (create_response w c) = Raise e" and "is_request_exception w e"
  shows "stdout (snd (create_github_issue w c s)) =
           stdout s @
           [Print [Lit ([128221] @ py '' Creating issue in '' @ TARGET_REPO_OWNER c
                        @ py ''/'' @ TARGET_REPO_NAME c)],
            Print [Lit (py ''   Title: '' @ issue_title c)]]
           @ map Print (create_error_lines e)"
  using assms by (simp add: create_github_issue_def create_response_def Let_def)

lemma script_stdout_Raise:
  assumes "fst (main w c s) = Raise e"
  shows "stdout (snd (script w c s)) =
           stdout (snd (main w c s)) @ [Print [Lit ([10060] @ py '' Fatal error: ''), Exc e]]"
  using assms by (cases "main w c s") (simp add: script_def)

lemma script_stderr_Raise:
  assumes "fst (main w c s) = Raise e"
  shows "stderr (snd (script w c s)) = stderr s @ [e]"
  using assms main_stderr [of w c s] by (cases "main w c s") (simp add: script_def)

lemma script_stdout_SysExit:
  assumes "fst (main w c s) = SysExit n"
  shows "stdout (snd (script w c s)) = stdout (snd (main w c s))"
  using assms by (cases "main w c s") (simp add: script_def)

text \<open>With a positive count the search gives the first item or raises a plain exception.\<close>

lemma getitem_0_not_request: "getitem_0 v = Raise e \<Longrightarrow> \<not> is_request_exception w e"
  by (cases v rule: getitem_0.cases) auto

lemma getitem_not_request: "getitem v k = Raise e \<Longrightarrow> \<not> is_request_exception w e"
  by (cases v) (auto split: option.splits)

lemma positive_count_search_try:
  assumes "positive_count res" and "search_try res = Raise e"
  shows "\<not> is_request_exception w e"
proof -
  from assms(1) obtain r data where res: "res = Responds r" and ok: "\<not> raises_for_status r"
    and js: "resp_json r = Some data"
    and pos: "obind (dict_get data (py ''total_count'') (JInt 0)) gt_zero = Return True"
    by (auto simp: positive_count_def split: http_result.splits option.splits)
  from pos obtain n where n: "dict_get data (py ''total_count'') (JInt 0) = Return n"
    and g: "gt_zero n = Return True"
    by (cases "dict_get data (py ''total_count'') (JInt 0)") simp_all
  from res ok js n g have "search_try res = obind (getitem data (py ''items'')) getitem_0"
    by (simp add: search_try_def)
  with assms(2) have *: "obind (getitem data (py ''items'')) getitem_0 = Raise e" by simp
  show ?thesis
  proof (cases "getitem data (py ''items'')")
    case (Return x)
    with * show ?thesis by (simp add: getitem_0_not_request)
  next
    case (Raise e')
    with * show ?thesis by (simp add: getitem_not_request)
  next
    case (SysExit k)
    with * show ?thesis by simp
  qed
qed

text \<open>
  With a positive count, a value that the search returns is the first element of the
  list \<open>items\<close> of the response, or the first character of a string there.
\<close>

lemma positive_count_Return:
  assumes "positive_count res" and "search_try res = Return v"
  shows "truthy v
         \<or> (\<exists>r kvs xs. res = Responds r \<and> resp_json r = Some (JDict kvs)
               \<and> map_of kvs (py ''items'') = Some (JList (v # xs)))"
proof -
  from assms(1) obtain r data where res: "res = Responds r" and ok: "\<not> raises_for_status r"
    and js: "resp_json r = Some data"
    and pos: "obind (dict_get data (py ''total_count'') (JInt 0)) gt_zero = Return True"
    by (auto simp: positive_count_def split: http_result.splits option.splits)
  from pos obtain n where n: "dict_get data (py ''total_count'') (JInt 0) = Return n"
    and g: "gt_zero n = Return True"
    by (cases "dict_get data (py ''total_count'') (JInt 0)") simp_all
  from n obtain kvs where d: "data = JDict kvs"
    by (cases data) simp_all
  from res ok js n g have "search_try res = obind (getitem data (py ''items'')) getitem_0"
    by (simp add: search_try_def)
  with assms(2) d have *: "obind (getitem (JDict kvs) (py ''items'')) getitem_0 = Return v"
    by simp
  then obtain items where i: "map_of kvs (py ''items'') = Some items"
    and g0: "getitem_0 items = Return v"
    by (cases "map_of kvs (py ''items'')") simp_all
  from g0 show ?thesis
  proof (cases items rule: getitem_0.cases)
    case (2 x xs)
    with g0 i res js d show ?thesis by auto
  next
    case (4 ch cs)
    with g0 show ?thesis by auto
  qed simp_all
qed

lemma search_try_first_item:
  assumes "positive_count (Responds r)" and "resp_json r = Some (JDict kvs)"
    and "map_of kvs (py ''items'') = Some (JList (x # xs))"
  shows "search_try (Responds r) = Return x"
proof -
  from assms(1,2) have ok: "\<not> raises_for_status r"
    and pos: "obind (dict_get (JDict kvs) (py ''total_count'') (JInt 0)) gt_zero = Return True"
    by (simp_all add: positive_count_def)
  from pos obtain n where n: "dict_get (JDict kvs) (py ''total_count'') (JInt 0) = Return n"
    and g: "gt_zero n = Return True"
    by (cases "dict_get (JDict kvs) (py ''total_count'') (JInt 0)") simp_all
  from n have n': "Return (case map_of kvs (py ''total_count'') of None \<Rightarrow> JInt 0 | Some x \<Rightarrow> x)
                   = Return n"
    by simp
  show ?thesis
    using ok assms(2,3) n' g by (simp add: search_try_def)
qed

subsection \<open>The concrete inputs evaluated\<close>

lemma missing_config_ok: "missing config_ok = []"
  by (simp add: missing_def required_vars_def not_value_def config_ok_def py_def)

lemma search_try_nothing: "search_try (responds 200 search_nothing) = Return JNull"
  by (simp add: search_try_def responds_def search_nothing_def raises_for_status_def py_def)

lemma search_try_empty_item: "search_try (responds 200 search_empty_item) = Return (JDict [])"
  by (simp add: search_try_def responds_def search_empty_item_def raises_for_status_def py_def)

lemma search_try_no_items: "search_try (responds 200 search_no_items) = Raise IndexError"
  by (simp add: search_try_def responds_def search_no_items_def raises_for_status_def py_def)

lemma search_try_found:
  "search_try (responds 200 search_found) =
     Return (JDict [(py ''number'', JInt 17),
                    (py ''html_url'', JStr (py ''https://github.com/Karthi-Knackforge/cms-project/issues/17''))])"
  by (simp add: search_try_def responds_def search_found_def raises_for_status_def py_def)

lemma search_response_world_of [simp]: "search_response (world_of g p) c = g"
  by (simp add: search_response_def world_of_def)

lemma create_response_world_of [simp]: "create_response (world_of g p) c = p"
  by (simp add: create_response_def world_of_def)

lemma created_result_created_issue: "created_result created_issue = Raise TypeError"
  by (simp add: created_result_def created_issue_def py_def)

lemma created_result_empty: "created_result (JDict []) = Return ()"
  by (simp add: created_result_def)

section \<open>Claims\<close>

subsection \<open>C1\<close>

text \<open>
  C1 (as amended). An invocation makes at most one creation request. If the search
  reports a positive total count, no creation request is made, unless the first element
  of the list \<open>items\<close> of the response is a value that Python takes for false (an empty
  object, \<open>null\<close>, zero, an empty string or list): \<open>main\<close> tests
  \<open>if existing_issue:\<close>, so such an item counts as no issue found.
\<close>

theorem C1_no_creation_after_duplicate:
  "length (creation_requests (script w c init_state)) \<le> 1
   \<and> (positive_count (search_response w c)
        \<and> (\<forall>r kvs x xs.
               search_response w c = Responds r
               \<and> resp_json r = Some (JDict kvs)
               \<and> map_of kvs (py ''items'') = Some (JList (x # xs))
               \<longrightarrow> truthy x)
      \<longrightarrow> creation_requests (script w c init_state) = [])"
proof -
  have 1: "length (creation_requests (script w c init_state)) \<le> 1"
    by (simp add: creation_requests_script split: outcome.splits)
  have 2: "creation_requests (script w c init_state) = []"
    if p: "positive_count (search_response w c)"
      and t: "\<forall>r kvs x xs.
               search_response w c = Responds r
               \<and> resp_json r = Some (JDict kvs)
               \<and> map_of kvs (py ''items'') = Some (JList (x # xs))
               \<longrightarrow> truthy x"
  proof (cases "search_try (search_response w c)")
    case (Return v)
    from positive_count_Return [OF p Return] t have "truthy v" by blast
    with Return show ?thesis
      by (simp add: creation_requests_script search_result_def)
  next
    case (Raise e)
    with p have "\<not> is_request_exception w e"
      by (simp add: positive_count_search_try)
    with Raise show ?thesis
      by (simp add: creation_requests_script search_result_def)
  next
    case (SysExit n)
    then show ?thesis by (simp add: search_try_no_exit)
  qed
  from 1 2 show ?thesis by blast
qed

theorem C1_witness:
  "search_response world_found config_ok = responds 200 search_found
   \<and> positive_count (search_response world_found config_ok)
   \<and> search_found =
       JDict [(py ''total_count'', JInt 1),
              (py ''items'', JList [JDict [(py ''number'', JInt 17),
                                           (py ''html_url'', JStr (py ''https://github.com/Karthi-Knackforge/cms-project/issues/17''))]])]
   \<and> truthy (JDict [(py ''number'', JInt 17),
                     (py ''html_url'', JStr (py ''https://github.com/Karthi-Knackforge/cms-project/issues/17''))])
   \<and> creation_requests (script world_found config_ok init_state) = []
   \<and> exit_status (script world_found config_ok init_state) = 0"
proof -
  have a: "search_response world_found config_ok = responds 200 search_found"
    by (simp add: world_found_def)
  have p: "positive_count (search_response world_found config_ok)"
    by (simp add: world_found_def positive_count_def responds_def search_found_def
        raises_for_status_def)
  have t: "\<forall>r kvs x xs.
               search_response world_found config_ok = Responds r
               \<and> resp_json r = Some (JDict kvs)
               \<and> map_of kvs (py ''items'') = Some (JList (x # xs))
               \<longrightarrow> truthy x"
    by (auto simp: world_found_def responds_def search_found_def py_def)
  have e: "exit_status (script world_found config_ok init_state) = 0"
    by (simp add: script_exit_main_result main_result_def missing_config_ok search_result_def
        world_found_def search_try_found existing_result_def)
  show ?thesis
    using C1_no_creation_after_duplicate [of world_found config_ok] a p t e
    by (simp add: search_found_def)
qed

text \<open>
  C1 as it is written fails: the response below reports one result and its first
  item is the empty object, and the creation request is made.
\<close>

theorem C1_counterexample:
  "search_response world_falsy_item config_ok
     = responds 200 (JDict [(py ''total_count'', JInt 1), (py ''items'', JList [JDict []])])
   \<and> positive_count (search_response world_falsy_item config_ok)
   \<and> creation_requests (script world_falsy_item config_ok init_state)
       = [create_call world_falsy_item config_ok]"
proof -
  have p: "positive_count (search_response world_falsy_item config_ok)"
    by (simp add: world_falsy_item_def positive_count_def responds_def search_empty_item_def
        raises_for_status_def)
  have c: "creation_requests (script world_falsy_item config_ok init_state)
       = [create_call world_falsy_item config_ok]"
    by (simp add: creation_requests_script missing_config_ok search_result_def
        world_falsy_item_def search_try_empty_item)
  from p c show ?thesis
    by (simp add: world_falsy_item_def search_empty_item_def)
qed

subsection \<open>C2\<close>

text \<open>
  C2 (as amended). If the description is empty, the body contains the text
  \<open>No description provided.\<close>. If the description has a character that is not white
  space, the body contains the trimmed description at least once, and has it right under
  the Requirements heading, before the Acceptance Criteria heading.
\<close>

theorem C2_description_in_body:
  "(JIRA_DESCRIPTION c = []
      \<longrightarrow> sublist (py ''No description provided.'') (create_copilot_optimized_issue_body c))
   \<and> (strip (JIRA_DESCRIPTION c) \<noteq> []
      \<longrightarrow> 1 \<le> occurrences (strip (JIRA_DESCRIPTION c)) (create_copilot_optimized_issue_body c)
          \<and> prefix (py ''## '' @ [128203] @ py '' Requirements'' @ nl @ nl
                     @ strip (JIRA_DESCRIPTION c) @ nl @ nl
                     @ py ''## '' @ [9989] @ py '' Acceptance Criteria'')
                    (create_copilot_optimized_issue_body c))"
proof -
  let ?head = "py ''## '' @ [128203] @ py '' Requirements'' @ nl @ nl"
  let ?next = "nl @ nl @ py ''## '' @ [9989] @ py '' Acceptance Criteria''"
  obtain rest where b: "create_copilot_optimized_issue_body c
      = ?head @ description_of c @ ?next @ rest"
    by (simp add: create_copilot_optimized_issue_body_def)
  then have s: "sublist (description_of c) (create_copilot_optimized_issue_body c)"
    by (metis sublist_appendI)
  have p: "prefix (?head @ description_of c @ ?next) (create_copilot_optimized_issue_body c)"
    unfolding b by (simp add: prefix_def)
  have 1: "sublist (py ''No description provided.'') (create_copilot_optimized_issue_body c)"
    if "JIRA_DESCRIPTION c = []"
    using s that by (simp add: description_of_def)
  have 2: "1 \<le> occurrences (strip (JIRA_DESCRIPTION c)) (create_copilot_optimized_issue_body c)
          \<and> prefix (?head @ strip (JIRA_DESCRIPTION c) @ ?next)
                    (create_copilot_optimized_issue_body c)"
    if "strip (JIRA_DESCRIPTION c) \<noteq> []"
  proof -
    from that have "JIRA_DESCRIPTION c \<noteq> []" by (auto simp: strip_def)
    then have d: "description_of c = strip (JIRA_DESCRIPTION c)"
      by (simp add: description_of_def)
    have "0 < occurrences (strip (JIRA_DESCRIPTION c)) (create_copilot_optimized_issue_body c)"
      using s d by (simp add: occurrences_pos)
    with p d show ?thesis by simp
  qed
  from 1 2 show ?thesis by simp
qed

theorem C2_witness:
  "JIRA_DESCRIPTION config_all_missing = []
   \<and> sublist (py ''No description provided.'')
       (create_copilot_optimized_issue_body config_all_missing)
   \<and> strip (JIRA_DESCRIPTION config_ok) = py ''Users cannot log in with SSO''
   \<and> py ''Users cannot log in with SSO'' \<noteq> []
   \<and> 1 \<le> occurrences (py ''Users cannot log in with SSO'')
            (create_copilot_optimized_issue_body config_ok)"
proof -
  have a: "JIRA_DESCRIPTION config_all_missing = []"
    by (simp add: config_all_missing_def)
  have b: "strip (JIRA_DESCRIPTION config_ok) = py ''Users cannot log in with SSO''"
    by (simp add: config_ok_def strip_def isspace_def py_def)
  have c: "py ''Users cannot log in with SSO'' \<noteq> []"
    by (simp add: py_def)
  show ?thesis
    using C2_description_in_body [of config_all_missing] C2_description_in_body [of config_ok]
      a b c
    by simp
qed

text \<open>
  C2 as it is written fails twice. A description of three spaces is not empty, so
  it is trimmed to nothing and the placeholder is not used; and the description
  \<open>Tests\<close> occurs twice in the body, once as the description and once in the third
  acceptance criterion.
\<close>

theorem C2_counterexample:
  "strip (JIRA_DESCRIPTION config_blank_description) = []
   \<and> \<not> sublist (py ''No description provided.'')
         (create_copilot_optimized_issue_body config_blank_description)
   \<and> strip (JIRA_DESCRIPTION config_short_description) = py ''Tests''
   \<and> occurrences (py ''Tests'') (create_copilot_optimized_issue_body config_short_description) = 2"
proof -
  have 1: "strip (JIRA_DESCRIPTION config_blank_description) = []"
    by (simp add: config_blank_description_def config_ok_def strip_def isspace_def py_def)
  have "occurrences (py ''No description provided.'')
          (create_copilot_optimized_issue_body config_blank_description) = 0"
    by (simp add: config_blank_description_def config_ok_def
        create_copilot_optimized_issue_body_def description_of_def py_def nl_def strip_def
        isspace_def str_opt_def)
  then have 2: "\<not> sublist (py ''No description provided.'')
         (create_copilot_optimized_issue_body config_blank_description)"
    using occurrences_pos [of "py ''No description provided.''"
        "create_copilot_optimized_issue_body config_blank_description"]
    by simp
  have 3: "strip (JIRA_DESCRIPTION config_short_description) = py ''Tests''"
    by (simp add: config_short_description_def config_ok_def strip_def isspace_def py_def)
  have 4: "occurrences (py ''Tests'')
             (create_copilot_optimized_issue_body config_short_description) = 2"
    by (simp add: config_short_description_def config_ok_def
        create_copilot_optimized_issue_body_def description_of_def py_def nl_def strip_def
        isspace_def str_opt_def)
  from 1 2 3 4 show ?thesis by simp
qed

subsection \<open>C3\<close>

text \<open>
  C3 (as amended). If the credential or the ticket key is absent or empty, or the owner
  or the name of the repository is set to the empty string, then
  \<open>check_required_env_vars\<close> prints one line that names every such variable, not only
  the first, and ends the process by \<open>sys.exit(1)\<close>; the exit passes the top-level
  handler, so the exit status of the run is 1, the line is the last one printed and no
  request is made. An absent owner or name is not missing: its default is used.
\<close>

theorem C3_missing_config_exits_naming_all:
  assumes "not_value (env (py ''GITHUB_TOKEN'')) \<or> env (py ''TARGET_REPO_OWNER'') = Some []
           \<or> env (py ''TARGET_REPO_NAME'') = Some [] \<or> not_value (env (py ''JIRA_ISSUE_KEY''))"
  shows "check_required_env_vars (load_config env) s
           = (SysExit 1, print [Lit (missing_message (missing (load_config env)))] s)
         \<and> (not_value (env (py ''GITHUB_TOKEN''))
              \<longrightarrow> sublist (py ''GITHUB_TOKEN'') (missing_message (missing (load_config env))))
         \<and> (env (py ''TARGET_REPO_OWNER'') = Some []
              \<longrightarrow> sublist (py ''TARGET_REPO_OWNER'') (missing_message (missing (load_config env))))
         \<and> (env (py ''TARGET_REPO_NAME'') = Some []
              \<longrightarrow> sublist (py ''TARGET_REPO_NAME'') (missing_message (missing (load_config env))))
         \<and> (not_value (env (py ''JIRA_ISSUE_KEY''))
              \<longrightarrow> sublist (py ''JIRA_ISSUE_KEY'') (missing_message (missing (load_config env))))
         \<and> exit_status (run env w) = 1
         \<and> calls (snd (run env w)) = []
         \<and> stderr (snd (run env w)) = []
         \<and> stdout (snd (run env w)) =
             [Print [Lit ([128640] @ py '' Starting Jira to GitHub Issue workflow...'')],
              Print [Lit ([128205] @ py '' Target Repository: ''
                          @ TARGET_REPO_OWNER (load_config env)
                          @ py ''/'' @ TARGET_REPO_NAME (load_config env))],
              Print [Lit ([128221] @ py '' Jira Issue: '' @ str_opt (env (py ''JIRA_ISSUE_KEY'')))],
              Print [Lit (missing_message (missing (load_config env)))]]"
proof -
  let ?c = "load_config env"
  have f: "GITHUB_TOKEN ?c = env (py ''GITHUB_TOKEN'')"
    "JIRA_ISSUE_KEY ?c = env (py ''JIRA_ISSUE_KEY'')"
    "env (py ''TARGET_REPO_OWNER'') = Some [] \<Longrightarrow> TARGET_REPO_OWNER ?c = []"
    "env (py ''TARGET_REPO_NAME'') = Some [] \<Longrightarrow> TARGET_REPO_NAME ?c = []"
    by (simp_all add: load_config_def environ_get_def)
  from assms f have "set (missing ?c) \<noteq> {}"
    by (auto simp: missing_set)
  then have ne: "missing ?c \<noteq> []" by simp
  have named: "\<And>x. x \<in> set (missing ?c) \<Longrightarrow> sublist x (missing_message (missing ?c))"
    by (rule missing_message_names)
  have 1: "check_required_env_vars ?c s = (SysExit 1, print [Lit (missing_message (missing ?c))] s)"
    using ne by (simp add: check_required_env_vars_def)
  have 2: "not_value (env (py ''GITHUB_TOKEN''))
             \<longrightarrow> sublist (py ''GITHUB_TOKEN'') (missing_message (missing ?c))"
    using f by (auto intro!: named simp: missing_set)
  have 3: "env (py ''TARGET_REPO_OWNER'') = Some []
             \<longrightarrow> sublist (py ''TARGET_REPO_OWNER'') (missing_message (missing ?c))"
    using f by (auto intro!: named simp: missing_set)
  have 4: "env (py ''TARGET_REPO_NAME'') = Some []
             \<longrightarrow> sublist (py ''TARGET_REPO_NAME'') (missing_message (missing ?c))"
    using f by (auto intro!: named simp: missing_set)
  have 5: "not_value (env (py ''JIRA_ISSUE_KEY''))
             \<longrightarrow> sublist (py ''JIRA_ISSUE_KEY'') (missing_message (missing ?c))"
    using f by (auto intro!: named simp: missing_set)
  have m: "fst (main w ?c init_state) = SysExit 1"
    using main_missing [OF ne] by simp
  have 6: "exit_status (run env w) = 1"
    using m by (simp add: run_def script_exit_status)
  have 7: "calls (snd (run env w)) = []"
    using main_missing [OF ne, of w init_state]
    by (simp add: run_def script_calls init_state_def)
  have 8: "stderr (snd (run env w)) = []"
    using m main_stderr [of w ?c init_state]
    by (cases "main w ?c init_state") (simp add: run_def script_def init_state_def)
  have 9: "stdout (snd (run env w)) =
             [Print [Lit ([128640] @ py '' Starting Jira to GitHub Issue workflow...'')],
              Print [Lit ([128205] @ py '' Target Repository: '' @ TARGET_REPO_OWNER ?c
                          @ py ''/'' @ TARGET_REPO_NAME ?c)],
              Print [Lit ([128221] @ py '' Jira Issue: '' @ str_opt (env (py ''JIRA_ISSUE_KEY'')))],
              Print [Lit (missing_message (missing ?c))]]"
    using script_stdout_SysExit [OF m] main_missing_stdout [OF ne, of w init_state] f(2)
    by (simp add: run_def init_state_def)
  from 1 2 3 4 5 6 7 8 9 show ?thesis by blast
qed

theorem C3_witness:
  "not_value (environ_all_missing (py ''GITHUB_TOKEN''))
   \<and> environ_all_missing (py ''TARGET_REPO_OWNER'') = Some []
   \<and> environ_all_missing (py ''TARGET_REPO_NAME'') = Some []
   \<and> not_value (environ_all_missing (py ''JIRA_ISSUE_KEY''))
   \<and> missing (load_config environ_all_missing)
       = [py ''GITHUB_TOKEN'', py ''TARGET_REPO_OWNER'', py ''TARGET_REPO_NAME'', py ''JIRA_ISSUE_KEY'']
   \<and> check_required_env_vars (load_config environ_all_missing) init_state
       = (SysExit 1,
          print [Lit (missing_message (missing (load_config environ_all_missing)))] init_state)
   \<and> sublist (py ''GITHUB_TOKEN'') (missing_message (missing (load_config environ_all_missing)))
   \<and> sublist (py ''TARGET_REPO_OWNER'') (missing_message (missing (load_config environ_all_missing)))
   \<and> sublist (py ''TARGET_REPO_NAME'') (missing_message (missing (load_config environ_all_missing)))
   \<and> sublist (py ''JIRA_ISSUE_KEY'') (missing_message (missing (load_config environ_all_missing)))
   \<and> exit_status (run environ_all_missing (world_of (Fails [] None) (Fails [] None))) = 1
   \<and> calls (snd (run environ_all_missing (world_of (Fails [] None) (Fails [] None)))) = []"
proof -
  have h: "not_value (environ_all_missing (py ''GITHUB_TOKEN''))"
    "environ_all_missing (py ''TARGET_REPO_OWNER'') = Some []"
    "environ_all_missing (py ''TARGET_REPO_NAME'') = Some []"
    "not_value (environ_all_missing (py ''JIRA_ISSUE_KEY''))"
    by (simp_all add: environ_all_missing_def not_value_def py_def)
  have m: "missing (load_config environ_all_missing)
     = [py ''GITHUB_TOKEN'', py ''TARGET_REPO_OWNER'', py ''TARGET_REPO_NAME'', py ''JIRA_ISSUE_KEY'']"
    by (simp add: missing_def required_vars_def load_config_def environ_get_def
        environ_all_missing_def not_value_def py_def)
  show ?thesis
    using C3_missing_config_exits_naming_all
      [of environ_all_missing init_state "world_of (Fails [] None) (Fails [] None)"] h m
    by simp
qed

text \<open>
  C3 as it is written fails for an absent owner or name: in the environment below only
  the credential and the ticket key are set, the defaults stand in for the owner and the
  name, and the check passes without printing; where the search finds the issue, the
  run exits with status 0.
\<close>

theorem C3_counterexample:
  "environ_token_key (py ''TARGET_REPO_OWNER'') = None
   \<and> environ_token_key (py ''TARGET_REPO_NAME'') = None
   \<and> missing (load_config environ_token_key) = []
   \<and> check_required_env_vars (load_config environ_token_key) init_state
       = (Return (), init_state)
   \<and> exit_status (run environ_token_key world_found) = 0"
proof -
  have a: "environ_token_key (py ''TARGET_REPO_OWNER'') = None"
    "environ_token_key (py ''TARGET_REPO_NAME'') = None"
    by (simp_all add: environ_token_key_def py_def)
  have m: "missing (load_config environ_token_key) = []"
    by (simp add: missing_def required_vars_def not_value_def load_config_def environ_get_def
        environ_token_key_def py_def)
  have c: "check_required_env_vars (load_config environ_token_key) init_state
       = (Return (), init_state)"
    using m by (simp add: check_required_env_vars_def)
  have e: "exit_status (run environ_token_key world_found) = 0"
    using m by (simp add: run_def script_exit_main_result main_result_def search_result_def
        world_found_def search_try_found existing_result_def)
  from a m c e show ?thesis by simp
qed

subsection \<open>C4\<close>

text \<open>
  C4. With the configuration complete and no existing issue, the platform answers the
  creation with status 201 and the labels as objects. The issue is created, and the
  script then joins the labels as if they were strings: \<open>TypeError\<close>, caught by the
  top-level handler, and the exit status is 1.
\<close>

theorem C4_exit_1_after_creation:
  "fst (create_github_issue world_created config_ok init_state) = Return created_issue
   \<and> creation_requests (script world_created config_ok init_state)
       = [create_call world_created config_ok]
   \<and> fst (main world_created config_ok init_state) = Raise TypeError
   \<and> exit_status (script world_created config_ok init_state) = 1"
proof -
  have cr: "create_result world_created config_ok = Return created_issue"
    by (simp add: create_result_def create_try_def world_created_def responds_def
        raises_for_status_def)
  have sr: "search_result world_created config_ok = Return JNull"
    by (simp add: search_result_def world_created_def search_try_nothing)
  have m: "main_result world_created config_ok = Raise TypeError"
    by (simp add: main_result_def missing_config_ok sr cr created_result_created_issue)
  have 1: "fst (create_github_issue world_created config_ok init_state) = Return created_issue"
    by (simp add: create_github_issue_fst cr)
  have 2: "creation_requests (script world_created config_ok init_state)
       = [create_call world_created config_ok]"
    by (simp add: creation_requests_script missing_config_ok sr)
  from 1 2 m show ?thesis
    by (simp add: main_fst script_exit_main_result)
qed

subsection \<open>C5\<close>

text \<open>
  C5. When the search request fails in the library's sense (\<open>requests.get\<close> raises, or
  the status is an error for \<open>raise_for_status\<close>), \<open>search_existing_issue\<close> prints a
  warning with the error and returns \<open>None\<close>; the invocation goes on and makes the
  creation request.
\<close>

theorem C5_search_failure_is_absence:
  assumes "missing c = []" and "request_failure (search_response w c) = Some e"
  shows "fst (search_existing_issue w c (JIRA_ISSUE_KEY c) s) = Return JNull
         \<and> stdout (snd (search_existing_issue w c (JIRA_ISSUE_KEY c) s)) =
             stdout s @
             [Print [Lit ([128269] @ py '' Searching for existing issues with key: ''
                          @ str_opt (JIRA_ISSUE_KEY c) @ py '' in '' @ TARGET_REPO_OWNER c
                          @ py ''/'' @ TARGET_REPO_NAME c)],
              Print [Lit ([9888, 65039] @ py ''  Warning: Failed to search for existing issues: ''),
                     Exc e]]
         \<and> calls (snd (script w c init_state))
             = [search_call c (JIRA_ISSUE_KEY c), create_call w c]"
proof -
  have t: "search_try (search_response w c) = Raise e" and q: "is_request_exception w e"
    using request_failure_search_try [OF assms(2)] by simp_all
  have r: "search_result w c = Return JNull"
    using t q by (simp add: search_result_def)
  have 1: "fst (search_existing_issue w c (JIRA_ISSUE_KEY c) s) = Return JNull"
    using r by (simp add: search_existing_issue_fst)
  have 3: "calls (snd (script w c init_state))
             = [search_call c (JIRA_ISSUE_KEY c), create_call w c]"
    using assms(1) r by (simp add: script_calls main_calls init_state_def)
  from 1 3 search_existing_issue_stdout_caught [OF t q, of s] show ?thesis by simp
qed

theorem C5_witness:
  "missing config_ok = []
   \<and> request_failure (search_response world_search_down config_ok)
       = Some (RequestException (py ''Connection refused'') None)
   \<and> fst (search_existing_issue world_search_down config_ok (JIRA_ISSUE_KEY config_ok) init_state)
       = Return JNull
   \<and> calls (snd (script world_search_down config_ok init_state))
       = [search_call config_ok (JIRA_ISSUE_KEY config_ok), create_call world_search_down config_ok]"
proof -
  have f: "request_failure (search_response world_search_down config_ok)
       = Some (RequestException (py ''Connection refused'') None)"
    by (simp add: world_search_down_def request_failure_def)
  show ?thesis
    using C5_search_failure_is_absence [OF missing_config_ok f, of init_state] f missing_config_ok
    by simp
qed

subsection \<open>C6\<close>

text \<open>
  C6 (as amended). When the creation request fails in the library's sense
  (\<open>requests.post\<close> raises, or the status is 4xx or 5xx), \<open>create_github_issue\<close> prints
  the error, then the text of the response when the exception carries one, and calls
  \<open>sys.exit(1)\<close>; it has made the one request and makes no other. In an invocation
  that reaches the creation request the exit status is then 1.
\<close>

theorem C6_creation_failure_exits:
  assumes "request_failure (create_response w c) = Some e"
  shows "fst (create_github_issue w c s) = SysExit 1
         \<and> stdout (snd (create_github_issue w c s)) =
             stdout s @
             [Print [Lit ([128221] @ py '' Creating issue in '' @ TARGET_REPO_OWNER c
                          @ py ''/'' @ TARGET_REPO_NAME c)],
              Print [Lit (py ''   Title: '' @ issue_title c)],
              Print [Lit ([10060] @ py '' Error creating GitHub issue: ''), Exc e]]
             @ (case exn_response e of
                  None \<Rightarrow> []
                | Some r \<Rightarrow> [Print [Lit (py ''Response: '' @ resp_text r)]])
         \<and> calls (snd (create_github_issue w c s)) = calls s @ [create_call w c]
         \<and> (create_call w c \<in> set (calls (snd (script w c init_state)))
              \<longrightarrow> exit_status (script w c init_state) = 1
                  \<and> creation_requests (script w c init_state) = [create_call w c])"
proof -
  have t: "create_try (create_response w c) = Raise e" and q: "is_request_exception w e"
    using request_failure_search_try [OF assms] by simp_all
  have r: "create_result w c = SysExit 1"
    using t q by (simp add: create_result_def)
  have 1: "fst (create_github_issue w c s) = SysExit 1"
    using r by (simp add: create_github_issue_fst)
  have 2: "stdout (snd (create_github_issue w c s)) =
             stdout s @
             [Print [Lit ([128221] @ py '' Creating issue in '' @ TARGET_REPO_OWNER c
                          @ py ''/'' @ TARGET_REPO_NAME c)],
              Print [Lit (py ''   Title: '' @ issue_title c)],
              Print [Lit ([10060] @ py '' Error creating GitHub issue: ''), Exc e]]
             @ (case exn_response e of
                  None \<Rightarrow> []
                | Some r \<Rightarrow> [Print [Lit (py ''Response: '' @ resp_text r)]])"
    using create_github_issue_stdout_caught [OF t q, of s]
    by (simp add: create_error_lines_def split: option.splits)
  have 4: "exit_status (script w c init_state) = 1
           \<and> creation_requests (script w c init_state) = [create_call w c]"
    if "create_call w c \<in> set (calls (snd (script w c init_state)))"
  proof -
    from that have m: "missing c = []"
      by (auto simp: script_calls main_calls init_state_def split: if_splits)
    from that m obtain v where v: "search_result w c = Return v" and f: "\<not> truthy v"
      by (cases "search_result w c")
         (auto simp: script_calls main_calls init_state_def search_call_def create_call_def
            split: if_splits)
    have "main_result w c = SysExit 1"
      using m v f r by (simp add: main_result_def)
    then show ?thesis
      using m v f by (simp add: script_exit_main_result creation_requests_script)
  qed
  from 1 2 4 create_github_issue_calls [of w c s] show ?thesis by blast
qed

theorem C6_witness:
  "request_failure (create_response world_unprocessable config_ok)
     = Some (HTTPError \<lparr> status_code = 422, resp_text = py ''Validation Failed'', resp_json = None \<rparr>)
   \<and> create_call world_unprocessable config_ok
       \<in> set (calls (snd (script world_unprocessable config_ok init_state)))
   \<and> fst (create_github_issue world_unprocessable config_ok init_state) = SysExit 1
   \<and> stdout (snd (create_github_issue world_unprocessable config_ok init_state)) =
       [Print [Lit ([128221] @ py '' Creating issue in '' @ TARGET_REPO_OWNER config_ok
                    @ py ''/'' @ TARGET_REPO_NAME config_ok)],
        Print [Lit (py ''   Title: '' @ issue_title config_ok)],
        Print [Lit ([10060] @ py '' Error creating GitHub issue: ''),
               Exc (HTTPError \<lparr> status_code = 422, resp_text = py ''Validation Failed'',
                                 resp_json = None \<rparr>)],
        Print [Lit (py ''Response: '' @ py ''Validation Failed'')]]
   \<and> exit_status (script world_unprocessable config_ok init_state) = 1
   \<and> creation_requests (script world_unprocessable config_ok init_state)
       = [create_call world_unprocessable config_ok]"
proof -
  have f: "request_failure (create_response world_unprocessable config_ok)
     = Some (HTTPError \<lparr> status_code = 422, resp_text = py ''Validation Failed'', resp_json = None \<rparr>)"
    by (simp add: world_unprocessable_def request_failure_def raises_for_status_def)
  have sr: "search_result world_unprocessable config_ok = Return JNull"
    by (simp add: search_result_def world_unprocessable_def search_try_nothing)
  have i: "create_call world_unprocessable config_ok
       \<in> set (calls (snd (script world_unprocessable config_ok init_state)))"
    by (simp add: script_calls main_calls missing_config_ok sr)
  have s0: "stdout init_state = []" by (simp add: init_state_def)
  show ?thesis
    using C6_creation_failure_exits [OF f, of init_state] f i s0 by simp
qed

text \<open>
  C6 as it is written fails for a status that is neither 2xx nor an error for
  \<open>raise_for_status\<close>: with status 300 and a body that decodes, the creator returns
  and the exit status is 0.
\<close>

theorem C6_counterexample:
  "create_response world_multiple_choices config_ok
     = Responds \<lparr> status_code = 300, resp_text = [], resp_json = Some (JDict []) \<rparr>
   \<and> create_call world_multiple_choices config_ok
       \<in> set (calls (snd (script world_multiple_choices config_ok init_state)))
   \<and> fst (create_github_issue world_multiple_choices config_ok init_state) = Return (JDict [])
   \<and> exit_status (script world_multiple_choices config_ok init_state) = 0"
proof -
  have cr: "create_result world_multiple_choices config_ok = Return (JDict [])"
    by (simp add: create_result_def create_try_def world_multiple_choices_def responds_def
        raises_for_status_def)
  have sr: "search_result world_multiple_choices config_ok = Return JNull"
    by (simp add: search_result_def world_multiple_choices_def search_try_nothing)
  have m: "main_result world_multiple_choices config_ok = Return ()"
    by (simp add: main_result_def missing_config_ok sr cr created_result_empty)
  have i: "create_call world_multiple_choices config_ok
       \<in> set (calls (snd (script world_multiple_choices config_ok init_state)))"
    by (simp add: script_calls main_calls missing_config_ok sr)
  from cr m i show ?thesis
    by (simp add: create_github_issue_fst script_exit_main_result world_multiple_choices_def
        responds_def)
qed

subsection \<open>C7\<close>

text \<open>
  C7. Whatever the priority is, the label list sent with the creation request has
  exactly three entries: \<open>jira-sync\<close>, \<open>copilot-agent\<close> and \<open>priority-\<close> followed by
  the lower-cased priority (\<open>High\<close> gives \<open>priority-high\<close>); the three are pairwise
  distinct, and the list is the one in the payload of the request that
  \<open>create_github_issue\<close> makes.
\<close>

theorem C7_three_distinct_labels:
  "labels (issue_payload w c)
     = [py ''jira-sync'', py ''copilot-agent'',
        py ''priority-'' @ lower (unicode_lower w) (JIRA_PRIORITY c)]
   \<and> length (labels (issue_payload w c)) = 3
   \<and> distinct (labels (issue_payload w c))
   \<and> lower (unicode_lower w) (py ''High'') = py ''high''
   \<and> calls (snd (create_github_issue w c s))
       = calls s @ [POST (create_url c) (get_github_headers c) (issue_payload w c)]"
proof -
  have 1: "labels (issue_payload w c)
     = [py ''jira-sync'', py ''copilot-agent'',
        py ''priority-'' @ lower (unicode_lower w) (JIRA_PRIORITY c)]"
    by (simp add: issue_payload_def issue_labels_def)
  have 2: "distinct (labels (issue_payload w c))"
    by (simp add: issue_payload_def issue_labels_def py_def)
  have 3: "lower (unicode_lower w) (py ''High'') = py ''high''"
    by (simp add: lower_def isascii_def py_def ascii_lower_def)
  have 4: "calls (snd (create_github_issue w c s))
       = calls s @ [POST (create_url c) (get_github_headers c) (issue_payload w c)]"
    using create_github_issue_calls [of w c s] by (simp add: create_call_def)
  from 1 2 3 4 show ?thesis by simp
qed

subsection \<open>C8\<close>

text \<open>
  C8. Whatever the description, key, url, priority and type are, the body contains the
  four acceptance criteria word for word, each as an unchecked item on a line of its own,
  one after the other in the order of the template.
\<close>

theorem C8_body_has_checklist:
  "sublist
     (py ''- [ ] Implementation matches the requirements described above'' @ nl
      @ py ''- [ ] Code follows project conventions and best practices'' @ nl
      @ py ''- [ ] Tests are added/updated to cover changes'' @ nl
      @ py ''- [ ] Documentation is updated if needed'' @ nl)
     (create_copilot_optimized_issue_body c)"
proof -
  let ?block = "py ''- [ ] Implementation matches the requirements described above'' @ nl
      @ py ''- [ ] Code follows project conventions and best practices'' @ nl
      @ py ''- [ ] Tests are added/updated to cover changes'' @ nl
      @ py ''- [ ] Documentation is updated if needed'' @ nl"
  let ?before = "py ''## '' @ [128203] @ py '' Requirements'' @ nl @ nl @ description_of c @ nl
      @ nl @ py ''## '' @ [9989] @ py '' Acceptance Criteria'' @ nl @ nl"
  obtain after where "create_copilot_optimized_issue_body c = ?before @ ?block @ after"
    by (simp add: create_copilot_optimized_issue_body_def)
  then show ?thesis
    by (metis sublist_appendI)
qed

subsection \<open>C9\<close>

text \<open>
  C9. An unset owner or name variable is replaced by its non-empty default when the
  module is loaded, before the check: the check reports the owner (the name) as missing
  exactly when the variable is set to the empty string. With no variable set at all, the
  check reports the credential and the ticket key, and nothing else, and the run exits
  with status 1.
\<close>

theorem C9_defaults_before_check:
  "(env (py ''TARGET_REPO_OWNER'') = None
      \<longrightarrow> TARGET_REPO_OWNER (load_config env) = py ''Karthi-Knackforge'')
   \<and> (env (py ''TARGET_REPO_NAME'') = None
      \<longrightarrow> TARGET_REPO_NAME (load_config env) = py ''cms-project'')
   \<and> py ''Karthi-Knackforge'' \<noteq> [] \<and> py ''cms-project'' \<noteq> []
   \<and> (py ''TARGET_REPO_OWNER'' \<in> set (missing (load_config env))
        \<longleftrightarrow> env (py ''TARGET_REPO_OWNER'') = Some [])
   \<and> (py ''TARGET_REPO_NAME'' \<in> set (missing (load_config env))
        \<longleftrightarrow> env (py ''TARGET_REPO_NAME'') = Some [])
   \<and> missing (load_config Map.empty) = [py ''GITHUB_TOKEN'', py ''JIRA_ISSUE_KEY'']
   \<and> check_required_env_vars (load_config Map.empty) s
       = (SysExit 1, print [Lit (missing_message [py ''GITHUB_TOKEN'', py ''JIRA_ISSUE_KEY''])] s)
   \<and> exit_status (run Map.empty w) = 1"
proof -
  have 1: "env (py ''TARGET_REPO_OWNER'') = None
      \<longrightarrow> TARGET_REPO_OWNER (load_config env) = py ''Karthi-Knackforge''"
    and 2: "env (py ''TARGET_REPO_NAME'') = None
      \<longrightarrow> TARGET_REPO_NAME (load_config env) = py ''cms-project''"
    by (simp_all add: load_config_def environ_get_def)
  have 3: "py ''Karthi-Knackforge'' \<noteq> [] \<and> py ''cms-project'' \<noteq> []"
    by (simp add: py_def)
  have names: "py ''TARGET_REPO_OWNER'' \<noteq> py ''GITHUB_TOKEN''"
    "py ''TARGET_REPO_OWNER'' \<noteq> py ''TARGET_REPO_NAME''"
    "py ''TARGET_REPO_OWNER'' \<noteq> py ''JIRA_ISSUE_KEY''"
    "py ''TARGET_REPO_NAME'' \<noteq> py ''GITHUB_TOKEN''"
    "py ''TARGET_REPO_NAME'' \<noteq> py ''JIRA_ISSUE_KEY''"
    by (simp_all add: py_def)
  have 4: "py ''TARGET_REPO_OWNER'' \<in> set (missing (load_config env))
        \<longleftrightarrow> env (py ''TARGET_REPO_OWNER'') = Some []"
    using names 3
    by (cases "env (py ''TARGET_REPO_OWNER'')")
       (auto simp: missing_set load_config_def environ_get_def)
  have 5: "py ''TARGET_REPO_NAME'' \<in> set (missing (load_config env))
        \<longleftrightarrow> env (py ''TARGET_REPO_NAME'') = Some []"
    using names 3
    by (cases "env (py ''TARGET_REPO_NAME'')")
       (auto simp: missing_set load_config_def environ_get_def)
  have 6: "missing (load_config Map.empty) = [py ''GITHUB_TOKEN'', py ''JIRA_ISSUE_KEY'']"
    using 3 by (simp add: missing_def required_vars_def not_value_def load_config_def
        environ_get_def)
  have 7: "check_required_env_vars (load_config Map.empty) s
       = (SysExit 1, print [Lit (missing_message [py ''GITHUB_TOKEN'', py ''JIRA_ISSUE_KEY''])] s)"
    by (simp add: check_required_env_vars_def 6)
  have 8: "exit_status (run Map.empty w) = 1"
    by (simp add: run_def script_exit_main_result main_result_def 6)
  from 1 2 3 4 5 6 7 8 show ?thesis by blast
qed

theorem C9_witness:
  "(Map.empty :: environ) (py ''TARGET_REPO_OWNER'') = None
   \<and> (Map.empty :: environ) (py ''TARGET_REPO_NAME'') = None
   \<and> TARGET_REPO_OWNER (load_config Map.empty) = py ''Karthi-Knackforge''
   \<and> TARGET_REPO_NAME (load_config Map.empty) = py ''cms-project''
   \<and> py ''TARGET_REPO_OWNER'' \<notin> set (missing (load_config Map.empty))
   \<and> py ''TARGET_REPO_NAME'' \<notin> set (missing (load_config Map.empty))"
  using C9_defaults_before_check [of Map.empty init_state "world_of (Fails [] None) (Fails [] None)"]
  by (simp add: py_def)

subsection \<open>C10\<close>

text \<open>
  C10. A search response that reports a positive total count with an empty list of
  items makes \<open>data["items"][0]\<close> raise \<open>IndexError\<close>. It is no request exception, so
  the handler of \<open>search_existing_issue\<close> lets it pass, \<open>main\<close> ends with it, the
  top-level handler prints the fatal error on standard output and the traceback on
  standard error, and the process exits with status 1; no creation request is made.
\<close>

theorem C10_empty_items_is_fatal:
  assumes "missing c = []"
    and "search_response w c = Responds r" and "\<not> raises_for_status r"
    and "resp_json r = Some (JDict kvs)"
    and "map_of kvs (py ''total_count'') = Some (JInt n)" and "0 < n"
    and "map_of kvs (py ''items'') = Some (JList [])"
  shows "fst (search_existing_issue w c (JIRA_ISSUE_KEY c) s) = Raise IndexError
         \<and> \<not> is_request_exception w IndexError
         \<and> fst (main w c init_state) = Raise IndexError
         \<and> stdout (snd (script w c init_state)) =
             stdout (snd (main w c init_state))
             @ [Print [Lit ([10060] @ py '' Fatal error: ''), Exc IndexError]]
         \<and> stderr (snd (script w c init_state)) = [IndexError]
         \<and> exit_status (script w c init_state) = 1
         \<and> creation_requests (script w c init_state) = []"
proof -
  have t: "search_try (search_response w c) = Raise IndexError"
    using assms(2-7) by (simp add: search_try_def)
  then have r: "search_result w c = Raise IndexError"
    by (simp add: search_result_def)
  have 1: "fst (search_existing_issue w c (JIRA_ISSUE_KEY c) s) = Raise IndexError"
    using r by (simp add: search_existing_issue_fst)
  have m: "main_result w c = Raise IndexError"
    using assms(1) r by (simp add: main_result_def)
  then have 3: "fst (main w c init_state) = Raise IndexError"
    by (simp add: main_fst)
  have 5: "exit_status (script w c init_state) = 1"
    using m by (simp add: script_exit_main_result)
  have 6: "creation_requests (script w c init_state) = []"
    using assms(1) r by (simp add: creation_requests_script)
  have 7: "stderr (snd (script w c init_state)) = [IndexError]"
    using script_stderr_Raise [OF 3] by (simp add: init_state_def)
  from 1 3 5 6 7 script_stdout_Raise [OF 3] show ?thesis by simp
qed

theorem C10_witness:
  "search_response world_no_items config_ok = responds 200 search_no_items
   \<and> fst (search_existing_issue world_no_items config_ok (JIRA_ISSUE_KEY config_ok) init_state)
       = Raise IndexError
   \<and> fst (main world_no_items config_ok init_state) = Raise IndexError
   \<and> stderr (snd (script world_no_items config_ok init_state)) = [IndexError]
   \<and> exit_status (script world_no_items config_ok init_state) = 1
   \<and> creation_requests (script world_no_items config_ok init_state) = []"
proof -
  let ?r = "\<lparr> status_code = 200, resp_text = [], resp_json = Some search_no_items \<rparr>"
  let ?kvs = "[(py ''total_count'', JInt 1), (py ''items'', JList [])]"
  have a: "search_response world_no_items config_ok = Responds ?r"
    by (simp add: world_no_items_def responds_def)
  have b: "\<not> raises_for_status ?r" by (simp add: raises_for_status_def)
  have c: "resp_json ?r = Some (JDict ?kvs)" by (simp add: search_no_items_def)
  have d: "map_of ?kvs (py ''total_count'') = Some (JInt 1)" by simp
  have e: "map_of ?kvs (py ''items'') = Some (JList [])" by (simp add: py_def)
  have f: "(0::int) < 1" by simp
  show ?thesis
    using C10_empty_items_is_fatal [OF missing_config_ok a b c d f e, of init_state] a
    by (simp add: responds_def)
qed

end
